theory Spec2Isabelle
  imports Main "HOL-Library.Word"
begin

section \<open>Go values, errors and outcomes\<close>

text \<open>
  A Go call either returns, returns a non-nil \<open>error\<close>, or panics. The three outcomes are
  kept apart. A dynamic Go value is classified by what the type switch of
  \<open>panicToError\<close> can see of it: a \<open>string\<close>, a value implementing \<open>error\<close>, a value
  implementing \<open>fmt.Stringer\<close>, one implementing both, or anything else.
\<close>

datatype go_value =
    VString string
  | VError string
  | VStringer string
  | VErrorStringer string string
  | VOther

datatype go_error =
    ErrSyntax string
  | ErrRange string
  | Errorf string
  | ErrNew string
  | ErrWrap go_error

datatype 'a outcome = Ok 'a | Error go_error | Panic go_value

definition index_out_of_range :: go_value where
  "index_out_of_range = VError ''runtime error: index out of range''"

section \<open>Decimal conversion: strconv.Atoi and the \<open>%d\<close> verb\<close>

definition isDigit :: "char \<Rightarrow> bool" where
  "isDigit c = (48 \<le> (of_char c :: nat) \<and> (of_char c :: nat) \<le> 57)"

definition digitVal :: "char \<Rightarrow> nat" where
  "digitVal c = of_char c - 48"

definition digitChar :: "nat \<Rightarrow> char" where
  "digitChar d = char_of (48 + d)"

text \<open>Value of a digit string, most significant digit first, as the loop \<open>n = n*10 + ch\<close>.\<close>

fun digitsVal :: "nat \<Rightarrow> string \<Rightarrow> nat" where
  "digitsVal n [] = n"
| "digitsVal n (c # cs) = digitsVal (n * 10 + digitVal c) cs"

text \<open>
  \<open>strconv.Atoi\<close> on a 64-bit platform: an optional sign, at least one decimal digit and
  nothing else, and the value must fit an \<open>int\<close>.
\<close>

definition Atoi :: "string \<Rightarrow> go_error + int" where
  "Atoi s =
     (let ds = (case s of c # cs \<Rightarrow> if c = CHR ''-'' \<or> c = CHR ''+'' then cs else s | [] \<Rightarrow> s);
          neg = (case s of c # cs \<Rightarrow> c = CHR ''-'' | [] \<Rightarrow> False)
      in if ds = [] \<or> \<not> list_all isDigit ds then Inl (ErrSyntax s)
         else let v = (if neg then - int (digitsVal 0 ds) else int (digitsVal 0 ds))
              in if v < - (2 ^ 63) \<or> 2 ^ 63 \<le> v then Inl (ErrRange s) else Inr v)"

fun decimalNat :: "nat \<Rightarrow> string" where
  "decimalNat n = (if n < 10 then [digitChar n] else decimalNat (n div 10) @ [digitChar (n mod 10)])"

declare decimalNat.simps [simp del]

text \<open>\<open>fmt.Sprint\<close> and \<open>%d\<close> on an integer.\<close>

definition Sprint_int :: "int \<Rightarrow> string" where
  "Sprint_int i = (if i < 0 then CHR ''-'' # decimalNat (nat (- i)) else decimalNat (nat i))"

text \<open>
  \<open>string(b)\<close> for a byte \<open>b\<close> converts the code point: one byte below 0x80, its two-byte
  UTF-8 encoding from 0x80 on.
\<close>

definition string_of_byte :: "char \<Rightarrow> string" where
  "string_of_byte b =
     (let n = (of_char b :: nat)
      in if n < 128 then [b] else [char_of (192 + n div 64), char_of (128 + n mod 64)])"

section \<open>Protocol version negotiation (irmaclient/session.go)\<close>

record Qr =
  URL :: string
  ProtocolVersion :: string
  ProtocolMaxVersion :: string
  Type :: string

text \<open>\<open>var supportedVersions = map[int][]int{2: {2, 1}}\<close>\<close>

definition supportedVersions :: "(int \<times> int list) list" where
  "supportedVersions = [(2, [2, 1])]"

text \<open>\<open>strconv.Atoi(string(s[i]))\<close>: the index panics when out of range.\<close>

definition atoiAt :: "string \<Rightarrow> nat \<Rightarrow> int outcome" where
  "atoiAt s i =
     (if i < length s
      then (case Atoi (string_of_byte (s ! i)) of Inl e \<Rightarrow> Error e | Inr v \<Rightarrow> Ok v)
      else Panic index_out_of_range)"

definition aboveMinimum :: "int \<Rightarrow> int \<Rightarrow> int \<Rightarrow> int \<Rightarrow> bool" where
  "aboveMinimum major minor minmajor minminor =
     (major > minmajor \<or> (major = minmajor \<and> minor \<ge> minminor))"

definition underMaximum :: "int \<Rightarrow> int \<Rightarrow> int \<Rightarrow> int \<Rightarrow> bool" where
  "underMaximum major minor maxmajor maxminor =
     (major < maxmajor \<or> (major = maxmajor \<and> minor \<le> maxminor))"

text \<open>The inner loop over \<open>supportedVersions[major]\<close>.\<close>

fun scanMinors :: "int \<Rightarrow> int list \<Rightarrow> int \<Rightarrow> int \<Rightarrow> int \<Rightarrow> int \<Rightarrow> (int \<times> int) option" where
  "scanMinors major [] minmajor minminor maxmajor maxminor = None"
| "scanMinors major (minor # rest) minmajor minminor maxmajor maxminor =
     (if aboveMinimum major minor minmajor minminor \<and> underMaximum major minor maxmajor maxminor
      then Some (major, minor)
      else scanMinors major rest minmajor minminor maxmajor maxminor)"

text \<open>The outer loop over the keys, which were sorted in reverse.\<close>

fun scanMajors ::
  "(int \<times> int list) list \<Rightarrow> int list \<Rightarrow> int \<Rightarrow> int \<Rightarrow> int \<Rightarrow> int \<Rightarrow> (int \<times> int) option" where
  "scanMajors sv [] minmajor minminor maxmajor maxminor = None"
| "scanMajors sv (major # keys) minmajor minminor maxmajor maxminor =
     (case scanMinors major (case map_of sv major of Some ms \<Rightarrow> ms | None \<Rightarrow> [])
             minmajor minminor maxmajor maxminor of
        Some v \<Rightarrow> Some v
      | None \<Rightarrow> scanMajors sv keys minmajor minminor maxmajor maxminor)"

definition sortedKeys :: "(int \<times> int list) list \<Rightarrow> int list" where
  "sortedKeys sv = rev (sort (map fst sv))"

definition calcVersionIn :: "(int \<times> int list) list \<Rightarrow> Qr \<Rightarrow> string outcome" where
  "calcVersionIn sv qr =
     (case atoiAt (ProtocolVersion qr) 0 of Error e \<Rightarrow> Error e | Panic p \<Rightarrow> Panic p
      | Ok minmajor \<Rightarrow>
     (case atoiAt (ProtocolVersion qr) 2 of Error e \<Rightarrow> Error e | Panic p \<Rightarrow> Panic p
      | Ok minminor \<Rightarrow>
     (case atoiAt (ProtocolMaxVersion qr) 0 of Error e \<Rightarrow> Error e | Panic p \<Rightarrow> Panic p
      | Ok maxmajor \<Rightarrow>
     (case atoiAt (ProtocolMaxVersion qr) 2 of Error e \<Rightarrow> Error e | Panic p \<Rightarrow> Panic p
      | Ok maxminor \<Rightarrow>
     (case scanMajors sv (sortedKeys sv) minmajor minminor maxmajor maxminor of
        Some (major, minor) \<Rightarrow> Ok (Sprint_int major @ ''.'' @ Sprint_int minor)
      | None \<Rightarrow>
          Error (Errorf (''No supported protocol version between '' @ ProtocolVersion qr
                       @ '' and '' @ ProtocolMaxVersion qr)))))))"

definition calcVersion :: "Qr \<Rightarrow> string outcome" where
  "calcVersion qr = calcVersionIn supportedVersions qr"

text \<open>
  The specification's reading of the negotiation: the supported pairs in iteration order
  (majors descending, each major's minors in the listed order), and the lexicographic order
  on \<open>(major, minor)\<close>.
\<close>

definition lexLe :: "int \<times> int \<Rightarrow> int \<times> int \<Rightarrow> bool" where
  "lexLe p q = (fst p < fst q \<or> (fst p = fst q \<and> snd p \<le> snd q))"

definition supportedPairs :: "(int \<times> int list) list \<Rightarrow> (int \<times> int) list" where
  "supportedPairs sv =
     concat (map (\<lambda>major. map (Pair major) (case map_of sv major of Some ms \<Rightarrow> ms | None \<Rightarrow> []))
                 (rev (sort (map fst sv))))"

definition firstInRange :: "(int \<times> int list) list \<Rightarrow> int \<times> int \<Rightarrow> int \<times> int \<Rightarrow> (int \<times> int) option" where
  "firstInRange sv lo hi = find (\<lambda>p. lexLe lo p \<and> lexLe p hi) (supportedPairs sv)"

section \<open>Session state and lifetime (irmaclient/session.go)\<close>

text \<open>
  \<open>irma.Action\<close>, \<open>irma.Status\<close> and \<open>irma.ErrorType\<close> are declared outside the files at hand.
  Modelled from the spec: the action strings are the \<open>irmaqr\<close> values of the QR input
  (\<open>disclosing\<close>, \<open>signing\<close>, \<open>issuing\<close>, \<open>schememanager\<close>); the error kinds are those of the
  error-handling section. \<open>ActionUnknown\<close> only occurs in a \<open>case\<close> that falls through to
  \<open>default\<close>, so its value does not influence any path.
\<close>

type_synonym Action = string

definition ActionDisclosing :: Action where "ActionDisclosing = ''disclosing''"
definition ActionSigning :: Action where "ActionSigning = ''signing''"
definition ActionIssuing :: Action where "ActionIssuing = ''issuing''"
definition ActionSchemeManager :: Action where "ActionSchemeManager = ''schememanager''"
definition ActionUnknown :: Action where "ActionUnknown = ''unknown''"

datatype Status = StatusManualStarted | StatusCommunicating | StatusConnected

datatype ErrorType =
    ErrorNone
  | ErrorUnknownSchemeManager
  | ErrorInvalidSchemeManager
  | ErrorUnknownAction
  | ErrorProtocolVersionNotSupported
  | ErrorInvalidJWT
  | ErrorUnknownCredentialType
  | ErrorConfigurationDownload
  | ErrorCrypto
  | ErrorRejected
  | ErrorSerialization
  | ErrorKeyshare
  | ErrorPanic
  | ErrorTransport

record SessionError =
  ErrorType :: ErrorType
  Info :: string
  Err :: "go_error option"

record IrmaIdentifierSet =
  SchemeManagers :: "string set"
  Issuers :: "string set"
  CredentialTypes :: "string set"
  PublicKeys :: "(string \<times> int list) list"

text \<open>
  Modelled from the spec: \<open>IrmaIdentifierSet.Empty\<close> is not in the files at hand; the set is
  empty when it names nothing.
\<close>

definition Empty :: "IrmaIdentifierSet \<Rightarrow> bool" where
  "Empty ids = (SchemeManagers ids = {} \<and> Issuers ids = {} \<and> CredentialTypes ids = {}
                \<and> PublicKeys ids = [])"

record SchemeManager =
  Valid :: bool
  Status :: string
  Distributed :: bool

text \<open>Everything observable a session does: network calls and callbacks, in order.\<close>

datatype event =
    transport_Get string
  | transport_Post string
  | transport_Delete
  | Configuration_Download IrmaIdentifierSet
  | client_getProof
  | client_getBuilders
  | client_addLogEntry
  | startKeyshareSession
  | Handler_StatusUpdate Action Status
  | Handler_Success Action string
  | Handler_Cancelled Action
  | Handler_Failure Action SessionError
  | Handler_UnsatisfiableRequest Action
  | Handler_KeyshareEnrollmentMissing string
  | Handler_RequestPermission Action
  | Handler_RequestSchemeManagerPermission
  | clientHandler_UpdateConfiguration IrmaIdentifierSet
  | clientHandler_UpdateAttributes

text \<open>
  The \<open>session\<close> struct. \<open>done\<close> is written \<open>sdone\<close>; \<open>Handler\<close> records whether the
  handler is non-nil (only the recovery barrier tests it); \<open>Ids\<close> is
  \<open>session.irmaSession.Identifiers()\<close>; \<open>downloaded\<close> is a pointer, \<open>None\<close> for nil;
  \<open>trace\<close> collects the events.
\<close>

record session =
  Action :: Action
  Handler :: bool
  Version :: string
  downloaded :: "IrmaIdentifierSet option"
  sdone :: bool
  ServerURL :: string
  Ids :: IrmaIdentifierSet
  trace :: "event list"

definition emit :: "event \<Rightarrow> session \<Rightarrow> session" where
  "emit e s = s\<lparr>trace := trace s @ [e]\<rparr>"

definition IsInteractive :: "session \<Rightarrow> bool" where
  "IsInteractive s = (ServerURL s \<noteq> [])"

subsection \<open>panicToError and the recovery barrier\<close>

definition panicToError :: "go_value \<Rightarrow> SessionError" where
  "panicToError e =
     \<lparr>ErrorType = ErrorPanic,
      Info = (case e of
                VString x \<Rightarrow> x
              | VError x \<Rightarrow> x
              | VErrorStringer x y \<Rightarrow> x
              | VStringer y \<Rightarrow> y
              | VOther \<Rightarrow> []),
      Err = None\<rparr>"

text \<open>\<open>panicFailure\<close> runs deferred; its argument is what \<open>recover()\<close> returns.\<close>

definition panicFailure :: "go_value option \<Rightarrow> session \<Rightarrow> session" where
  "panicFailure recovered s =
     (case recovered of
        None \<Rightarrow> s
      | Some e \<Rightarrow> if Handler s then emit (Handler_Failure (Action s) (panicToError e)) s else s)"

subsection \<open>delete, fail, cancel, Dismiss\<close>

definition session_delete :: "session \<Rightarrow> bool \<times> session" where
  "session_delete s =
     (if \<not> sdone s
      then (True, (if IsInteractive s then emit transport_Delete s else s)\<lparr>sdone := True\<rparr>)
      else (False, s))"

definition announceDownloaded :: "session \<Rightarrow> session" where
  "announceDownloaded s =
     (case downloaded s of
        None \<Rightarrow> s
      | Some d \<Rightarrow> if \<not> Empty d then emit (clientHandler_UpdateConfiguration d) s else s)"

definition session_fail :: "SessionError \<Rightarrow> session \<Rightarrow> session" where
  "session_fail err s =
     (case session_delete s of
        (True, s') \<Rightarrow>
          emit (Handler_Failure (Action s') (err\<lparr>Err := map_option ErrWrap (Err err)\<rparr>))
               (announceDownloaded s')
      | (False, s') \<Rightarrow> s')"

definition session_cancel :: "session \<Rightarrow> session" where
  "session_cancel s =
     (case session_delete s of
        (True, s') \<Rightarrow> emit (Handler_Cancelled (Action s')) (announceDownloaded s')
      | (False, s') \<Rightarrow> s')"

definition session_Dismiss :: "session \<Rightarrow> session" where
  "session_Dismiss s = session_cancel s"

subsection \<open>checkKeyshareEnrollment and checkAndUpateConfiguration\<close>

record Client =
  SchemeManagers_conf :: "string \<rightharpoonup> SchemeManager"
  keyshareServers :: "string set"
  Download :: "IrmaIdentifierSet \<Rightarrow> IrmaIdentifierSet option \<times> go_error option"

text \<open>
  Go visits a map in an unspecified order: each \<open>range\<close> over
  \<open>Identifiers().SchemeManagers\<close> takes the order of its visit as a list.
  The \<open>Client\<close> holds what these functions read of \<open>client.Configuration\<close> and of
  \<open>client.keyshareServers\<close>, and the answer of \<open>Configuration.Download\<close>.
\<close>

fun checkKeyshareEnrollment :: "Client \<Rightarrow> string list \<Rightarrow> session \<Rightarrow> bool \<times> session" where
  "checkKeyshareEnrollment client [] s = (True, s)"
| "checkKeyshareEnrollment client (ident # rest) s =
     (case SchemeManagers_conf client ident of
        None \<Rightarrow>
          (False, emit (Handler_Failure (Action s)
                          \<lparr>ErrorType = ErrorUnknownSchemeManager, Info = ident, Err = None\<rparr>) s)
      | Some manager \<Rightarrow>
          if Distributed manager \<and> ident \<notin> keyshareServers client
          then (False, emit (Handler_KeyshareEnrollmentMissing ident) s)
          else checkKeyshareEnrollment client rest s)"

fun checkSchemeManagers :: "Client \<Rightarrow> string list \<Rightarrow> session \<Rightarrow> bool \<times> session" where
  "checkSchemeManagers client [] s = (True, s)"
| "checkSchemeManagers client (ident # rest) s =
     (case SchemeManagers_conf client ident of
        None \<Rightarrow>
          (False, session_fail \<lparr>ErrorType = ErrorUnknownSchemeManager, Info = ident, Err = None\<rparr> s)
      | Some manager \<Rightarrow>
          if \<not> Valid manager
          then (False, session_fail \<lparr>ErrorType = ErrorInvalidSchemeManager,
                                     Info = Status manager, Err = None\<rparr> s)
          else checkSchemeManagers client rest s)"

definition checkAndUpateConfiguration ::
  "Client \<Rightarrow> string list \<Rightarrow> string list \<Rightarrow> session \<Rightarrow> bool \<times> session" where
  "checkAndUpateConfiguration client order order' s =
     (case checkSchemeManagers client order s of
        (False, s1) \<Rightarrow> (False, s1)
      | (True, s1) \<Rightarrow>
     (case checkKeyshareEnrollment client order' s1 of
        (False, s2) \<Rightarrow> (False, s2)
      | (True, s2) \<Rightarrow>
     (case Download client (Ids s2) of
        (d, err) \<Rightarrow>
          let s3 = (emit (Configuration_Download (Ids s2)) s2)\<lparr>downloaded := d\<rparr>
          in (case err of
                Some e \<Rightarrow>
                  (False, session_fail \<lparr>ErrorType = ErrorConfigurationDownload, Info = [],
                                         Err = Some e\<rparr> s3)
              | None \<Rightarrow> (True, s3)))))"

subsection \<open>sendResponse and do\<close>

text \<open>What the collaborators of one session answer when asked.\<close>

record collaborators =
  distributed :: bool
  getProof :: "unit outcome"
  getBuilders :: "go_error option"
  post_proofs :: "SessionError + string"
  post_commitments :: "SessionError option"
  ConstructCredentials :: "go_error option"
  json_Marshal :: "go_error + string"

definition nil_dereference :: go_value where
  "nil_dereference = VError ''runtime error: invalid memory address or nil pointer dereference''"

text \<open>
  The tail of \<open>sendResponse\<close>, from \<open>addLogEntry\<close> on. \<open>session.downloaded.Empty()\<close> reads
  through the pointer, so a nil \<open>downloaded\<close> panics there; the first component is the
  panic value, if any.
\<close>

definition sendResponse_tail :: "string \<Rightarrow> session \<Rightarrow> go_value option \<times> session" where
  "sendResponse_tail messageJson s =
     (let s1 = emit client_addLogEntry s
      in case downloaded s1 of
           None \<Rightarrow> (Some nil_dereference, s1)
         | Some d \<Rightarrow>
             let s2 = (if \<not> Empty d then emit (clientHandler_UpdateConfiguration d) s1 else s1);
                 s3 = (if Action s2 = ActionIssuing then emit clientHandler_UpdateAttributes s2
                       else s2)
             in (None, emit (Handler_Success (Action s3) messageJson) (s3\<lparr>sdone := True\<rparr>)))"

definition sendResponse :: "collaborators \<Rightarrow> session \<Rightarrow> go_value option \<times> session" where
  "sendResponse c s =
     (if IsInteractive s then
        (if Action s = ActionSigning \<or> Action s = ActionDisclosing then
           (case post_proofs c of
              Inl err \<Rightarrow> (None, session_fail err (emit (transport_Post ''proofs'') s))
            | Inr response \<Rightarrow>
                if response \<noteq> ''VALID''
                then (None, session_fail \<lparr>ErrorType = ErrorRejected, Info = response, Err = None\<rparr>
                                         (emit (transport_Post ''proofs'') s))
                else sendResponse_tail [] (emit (transport_Post ''proofs'') s))
         else if Action s = ActionIssuing then
           (case post_commitments c of
              Some err \<Rightarrow> (None, session_fail err (emit (transport_Post ''commitments'') s))
            | None \<Rightarrow>
                (case ConstructCredentials c of
                   Some e \<Rightarrow>
                     (None, session_fail \<lparr>ErrorType = ErrorCrypto, Info = [], Err = Some e\<rparr>
                                         (emit (transport_Post ''commitments'') s))
                 | None \<Rightarrow> sendResponse_tail [] (emit (transport_Post ''commitments'') s)))
         else sendResponse_tail [] s)
      else
        (case json_Marshal c of
           Inl e \<Rightarrow>
             (None, session_fail \<lparr>ErrorType = ErrorSerialization, Info = [], Err = Some e\<rparr> s)
         | Inr messageJson \<Rightarrow> sendResponse_tail messageJson s))"

text \<open>
  \<open>do\<close>, with its deferred \<open>panicFailure\<close>. After a failing \<open>getBuilders\<close> the source does
  not return: the keyshare session is started all the same.
\<close>

definition session_do :: "collaborators \<Rightarrow> bool \<Rightarrow> session \<Rightarrow> session" where
  "session_do c proceed s =
     (case
        (if \<not> proceed then (None, session_cancel s)
         else
           let s1 = emit (Handler_StatusUpdate (Action s) StatusCommunicating) s
           in if \<not> distributed c then
                (case getProof c of
                   Panic v \<Rightarrow> (Some v, emit client_getProof s1)
                 | Error e \<Rightarrow>
                     (None, session_fail \<lparr>ErrorType = ErrorCrypto, Info = [], Err = Some e\<rparr>
                                         (emit client_getProof s1))
                 | Ok message \<Rightarrow> sendResponse c (emit client_getProof s1))
              else
                let s2 = emit client_getBuilders s1;
                    s3 = (case getBuilders c of
                            Some e \<Rightarrow> session_fail \<lparr>ErrorType = ErrorCrypto, Info = [],
                                                     Err = Some e\<rparr> s2
                          | None \<Rightarrow> s2)
                in (None, emit startKeyshareSession s3))
      of (recovered, s') \<Rightarrow> panicFailure recovered s')"

subsection \<open>NewSession\<close>

datatype task = go_managerSession | go_start | returned_nil

definition HasSuffix_slash :: "string \<Rightarrow> bool" where
  "HasSuffix_slash s = (s \<noteq> [] \<and> last s = CHR ''/'')"

text \<open>
  \<open>NewSession\<close> up to the goroutine it spawns. It has no recovery barrier of its own: a
  panic of \<open>calcVersion\<close> leaves it (\<open>Inl\<close>).
\<close>

definition NewSession :: "Qr \<Rightarrow> go_value + task \<times> session" where
  "NewSession qr =
     (let session = \<lparr>Action = Type qr, Handler = True, Version = [], downloaded = None,
                     sdone = False, ServerURL = URL qr,
                     Ids = \<lparr>SchemeManagers = {}, Issuers = {}, CredentialTypes = {},
                            PublicKeys = []\<rparr>,
                     trace = []\<rparr>
      in if Action session = ActionSchemeManager then Inr (go_managerSession, session)
         else
           (case calcVersion qr of
              Panic v \<Rightarrow> Inl v
            | Error err \<Rightarrow>
                Inr (returned_nil,
                     session_fail \<lparr>ErrorType = ErrorProtocolVersionNotSupported, Info = [],
                                   Err = Some err\<rparr> session)
            | Ok version \<Rightarrow>
                if Action session = ActionDisclosing \<or> Action session = ActionSigning
                   \<or> Action session = ActionIssuing
                then Inr (go_start,
                          session\<lparr>Version := version,
                                  ServerURL := (if \<not> HasSuffix_slash (ServerURL session)
                                                then ServerURL session @ ''/''
                                                else ServerURL session)\<rparr>)
                else Inr (returned_nil,
                          session_fail \<lparr>ErrorType = ErrorUnknownAction,
                                        Info = Action session, Err = None\<rparr>
                                       (session\<lparr>Version := version\<rparr>))))"

text \<open>The session-ending operations, as they may follow one another on one session.\<close>

datatype ending = Fail SessionError | Cancel | Dismiss | SendResponse collaborators

fun ending_step :: "ending \<Rightarrow> session \<Rightarrow> session" where
  "ending_step (Fail err) s = session_fail err s"
| "ending_step Cancel s = session_cancel s"
| "ending_step Dismiss s = session_Dismiss s"
| "ending_step (SendResponse c) s = snd (sendResponse c s)"

definition run_endings :: "ending list \<Rightarrow> session \<Rightarrow> session" where
  "run_endings ops s = fold ending_step ops s"

definition isDelete :: "event \<Rightarrow> bool" where
  "isDelete e = (case e of transport_Delete \<Rightarrow> True | _ \<Rightarrow> False)"

definition deletes :: "session \<Rightarrow> nat" where
  "deletes s = length (filter isDelete (trace s))"

text \<open>The invariant behind the one-shot flag: a DELETE was sent only if \<open>done\<close> is set.\<close>

definition delete_inv :: "session \<Rightarrow> bool" where
  "delete_inv s = (deletes s = 0 \<or> (sdone s \<and> deletes s = 1))"

text \<open>
  What \<open>fail\<close> and \<open>cancel\<close> are expected to append to the trace of a session that is not
  done: the DELETE of an interactive session, the announcement of a non-empty
  \<open>downloaded\<close> set, and the outcome callback.
\<close>

definition ending_events :: "session \<Rightarrow> event \<Rightarrow> event list" where
  "ending_events s outcome =
     (if IsInteractive s then [transport_Delete] else [])
     @ (case downloaded s of
          None \<Rightarrow> []
        | Some d \<Rightarrow> if Empty d then [] else [clientHandler_UpdateConfiguration d])
     @ [outcome]"

definition offending :: "Client \<Rightarrow> string \<Rightarrow> bool" where
  "offending client ident =
     (case SchemeManagers_conf client ident of None \<Rightarrow> True | Some manager \<Rightarrow> \<not> Valid manager)"

definition schemeManagerError :: "Client \<Rightarrow> string \<Rightarrow> SessionError" where
  "schemeManagerError client ident =
     (case SchemeManagers_conf client ident of
        None \<Rightarrow> \<lparr>ErrorType = ErrorUnknownSchemeManager, Info = ident, Err = None\<rparr>
      | Some manager \<Rightarrow>
          \<lparr>ErrorType = ErrorInvalidSchemeManager, Info = Status manager, Err = None\<rparr>)"

subsection \<open>Sample values for the concrete instances\<close>

definition studentCard_ids :: IrmaIdentifierSet where
  "studentCard_ids =
     \<lparr>SchemeManagers = {''irma-demo''}, Issuers = {''irma-demo.RU''},
      CredentialTypes = {''irma-demo.RU.studentCard''}, PublicKeys = []\<rparr>"

definition fresh_session :: session where
  "fresh_session =
     \<lparr>Action = ''disclosing'', Handler = True, Version = ''2.2'', downloaded = None,
      sdone = False, ServerURL = ''https://example.com/irma/'', Ids = studentCard_ids,
      trace = []\<rparr>"

definition valid_manager :: SchemeManager where
  "valid_manager = \<lparr>Valid = True, Status = ''Valid'', Distributed = False\<rparr>"

definition broken_manager :: SchemeManager where
  "broken_manager = \<lparr>Valid = False, Status = ''InvalidSignature'', Distributed = False\<rparr>"

definition no_download :: "IrmaIdentifierSet \<Rightarrow> IrmaIdentifierSet option \<times> go_error option" where
  "no_download ids =
     (Some \<lparr>SchemeManagers = {}, Issuers = {}, CredentialTypes = {}, PublicKeys = []\<rparr>, None)"

definition quiet_collaborators :: collaborators where
  "quiet_collaborators =
     \<lparr>distributed = False, getProof = Ok (), getBuilders = None,
      post_proofs = Inr ''VALID'', post_commitments = None, ConstructCredentials = None,
      json_Marshal = Inr ''{}''\<rparr>"

definition empty_client :: Client where
  "empty_client = \<lparr>SchemeManagers_conf = Map.empty, keyshareServers = {}, Download = no_download\<rparr>"

definition mixed_client :: Client where
  "mixed_client =
     \<lparr>SchemeManagers_conf = [''test'' \<mapsto> broken_manager], keyshareServers = {},
      Download = no_download\<rparr>"

definition panicking_collaborators :: collaborators where
  "panicking_collaborators = quiet_collaborators\<lparr>getProof := Panic (VString ''boom'')\<rparr>"

section \<open>Timestamps (irma.Timestamp)\<close>

text \<open>
  A \<open>time.Time\<close> is held by what the code reads and writes of it: the seconds since the
  Unix epoch as the \<open>int64\<close> that \<open>Unix()\<close> returns, the nanoseconds within the second,
  and the name of the location. \<open>time.Unix(sec, 0)\<close> builds a time in the local location.
  Two times denote the same instant (\<open>Time.Equal\<close>) when seconds and nanoseconds agree.
\<close>

record Timestamp =
  unixSec :: "64 word"
  nsec :: nat
  loc :: string

definition Unix :: "Timestamp \<Rightarrow> int" where
  "Unix t = sint (unixSec t)"

definition time_Unix :: "int \<Rightarrow> nat \<Rightarrow> Timestamp" where
  "time_Unix s n = \<lparr>unixSec = word_of_int s, nsec = n, loc = ''Local''\<rparr>"

definition Equal :: "Timestamp \<Rightarrow> Timestamp \<Rightarrow> bool" where
  "Equal t u = (unixSec t = unixSec u \<and> nsec t = nsec u)"

definition Truncate_Second :: "Timestamp \<Rightarrow> Timestamp" where
  "Truncate_Second t = t\<lparr>nsec := 0\<rparr>"

definition MarshalJSON :: "Timestamp \<Rightarrow> go_error + string" where
  "MarshalJSON t = (let ts = Unix t; stamp = Sprint_int ts in Inr stamp)"

text \<open>\<open>UnmarshalJSON\<close> assigns \<open>*t\<close> only when \<open>Atoi\<close> succeeds; the result is the new \<open>*t\<close>.\<close>

definition UnmarshalJSON :: "string \<Rightarrow> go_error + Timestamp" where
  "UnmarshalJSON b = (case Atoi b of Inl err \<Rightarrow> Inl err | Inr ts \<Rightarrow> Inr (time_Unix ts 0))"

definition roundtrip :: "Timestamp \<Rightarrow> go_error + Timestamp" where
  "roundtrip t = (case MarshalJSON t of Inl err \<Rightarrow> Inl err | Inr b \<Rightarrow> UnmarshalJSON b)"

section \<open>Credential requests (irma.CredentialRequest)\<close>

text \<open>\<open>new(big.Int).SetBytes(b)\<close>: the bytes read as a big-endian unsigned integer.\<close>

definition SetBytes :: "string \<Rightarrow> int" where
  "SetBytes b = foldl (\<lambda>acc c. acc * 256 + of_char c) 0 b"

record AttributeType =
  ID :: string

record CredentialType =
  Attributes_ct :: "AttributeType list"

record Configuration =
  CredentialTypes_conf :: "string \<rightharpoonup> CredentialType"

record CredentialRequest =
  Validity :: "Timestamp option"
  KeyCounter :: int
  CredentialTypeID :: "string option"
  Attributes :: "string \<rightharpoonup> string"

record AttributeList =
  Ints :: "int list"

text \<open>
  \<open>NewMetadataAttribute\<close> and its setters are not in the files at hand. The function is
  settled on the code with their joint result as a parameter \<open>meta\<close>: \<open>Inl\<close> the error that
  \<open>setExpiryDate\<close> returns, else the metadata integer \<open>meta.Int\<close>. The first dereference of
  the pointer \<open>cr.CredentialTypeID\<close> panics when it is nil. \<open>NewAttributeListFromInts\<close>
  wraps the integers; \<open>NewCredentialInfo\<close> is kept abstract as the parameter \<open>mkInfo\<close>.
\<close>

text \<open>The loop over \<open>credtype.Attributes\<close>, filling \<open>attrs[i+1]\<close>.\<close>

fun fillAttributes :: "AttributeType list \<Rightarrow> (string \<rightharpoonup> string) \<Rightarrow> int list option" where
  "fillAttributes [] attributes = Some []"
| "fillAttributes (attrtype # rest) attributes =
     (case attributes (ID attrtype) of
        Some str \<Rightarrow>
          (case fillAttributes rest attributes of
             Some vals \<Rightarrow> Some (SetBytes str # vals)
           | None \<Rightarrow> None)
      | None \<Rightarrow> None)"

definition AttributeList ::
  "(CredentialRequest \<Rightarrow> go_error + int) \<Rightarrow> Configuration \<Rightarrow> CredentialRequest
   \<Rightarrow> AttributeList outcome" where
  "AttributeList meta conf cr =
     (case CredentialTypeID cr of
        None \<Rightarrow> Panic nil_dereference
      | Some ident \<Rightarrow>
     (case meta cr of
        Inl err \<Rightarrow> Error err
      | Inr metaInt \<Rightarrow>
     (case CredentialTypes_conf conf ident of
        None \<Rightarrow> Error (ErrNew ''Unknown credential type'')
      | Some credtype \<Rightarrow>
          if length (Attributes_ct credtype) \<noteq> card (dom (Attributes cr))
          then Error (ErrNew ''Received unexpected amount of attributes'')
          else (case fillAttributes (Attributes_ct credtype) (Attributes cr) of
                  None \<Rightarrow> Error (ErrNew ''Unknown attribute'')
                | Some vals \<Rightarrow> Ok \<lparr>Ints = metaInt # vals\<rparr>))))"

definition Info_cr ::
  "(CredentialRequest \<Rightarrow> go_error + int) \<Rightarrow> (int list \<Rightarrow> 'i) \<Rightarrow> Configuration
   \<Rightarrow> CredentialRequest \<Rightarrow> 'i outcome" where
  "Info_cr meta mkInfo conf cr =
     (case AttributeList meta conf cr of
        Error err \<Rightarrow> Error err
      | Panic v \<Rightarrow> Panic v
      | Ok list \<Rightarrow> Ok (mkInfo (Ints list)))"

text \<open>
  The issuance loop of \<open>start\<close> that builds the \<open>CredentialInfoList\<close> for the consent
  dialog; a panic reaches the deferred \<open>panicFailure\<close> of \<open>start\<close>. The second component is
  the list built so far.
\<close>

fun start_preview ::
  "(CredentialRequest \<Rightarrow> go_error + int) \<Rightarrow> (int list \<Rightarrow> 'i) \<Rightarrow> Configuration
   \<Rightarrow> CredentialRequest list \<Rightarrow> 'i list \<Rightarrow> session \<Rightarrow> bool \<times> 'i list \<times> session" where
  "start_preview meta mkInfo conf [] infos s = (True, infos, s)"
| "start_preview meta mkInfo conf (credreq # rest) infos s =
     (case Info_cr meta mkInfo conf credreq of
        Error err \<Rightarrow>
          (False, infos,
           session_fail \<lparr>ErrorType = ErrorUnknownCredentialType, Info = [], Err = Some err\<rparr> s)
      | Panic v \<Rightarrow> (False, infos, panicFailure (Some v) s)
      | Ok info \<Rightarrow> start_preview meta mkInfo conf rest (infos @ [info]) s)"

text \<open>The specification's reading: the request's keys are exactly the declared attributes.\<close>

definition keysMatch :: "CredentialType \<Rightarrow> CredentialRequest \<Rightarrow> bool" where
  "keysMatch credtype cr = (ID ` set (Attributes_ct credtype) = dom (Attributes cr))"

definition bigEndian :: "string \<Rightarrow> int" where
  "bigEndian b = (\<Sum>i < length b. of_char (b ! i) * 256 ^ (length b - 1 - i))"

definition declaredValues :: "CredentialType \<Rightarrow> CredentialRequest \<Rightarrow> int list" where
  "declaredValues credtype cr =
     map (\<lambda>attrtype. bigEndian (the (Attributes cr (ID attrtype)))) (Attributes_ct credtype)"

definition studentCard :: CredentialType where
  "studentCard = \<lparr>Attributes_ct = [\<lparr>ID = ''studentID''\<rparr>]\<rparr>"

definition demo_conf :: Configuration where
  "demo_conf = \<lparr>CredentialTypes_conf = [''irma-demo.RU.studentCard'' \<mapsto> studentCard]\<rparr>"

definition demo_request :: CredentialRequest where
  "demo_request =
     \<lparr>Validity = None, KeyCounter = 0, CredentialTypeID = Some ''irma-demo.RU.studentCard'',
      Attributes = [''studentID'' \<mapsto> ''456'']\<rparr>"

section \<open>The nonce of a signature request (irma.SignatureRequest)\<close>

text \<open>
  \<open>crypto/sha256\<close> and \<open>encoding/asn1\<close> are the Go standard library. The hash is a
  parameter \<open>sha256_Sum256\<close> of the model. \<open>asn1.Marshal\<close> is written out for the one shape
  it is called with, a slice of \<open>*big.Int\<close>: a DER SEQUENCE (tag 0x30) of INTEGERs
  (tag 0x02), each in the shortest two's complement form, with definite lengths in the
  short form below 128 and the long form from 128 on; a nil \<open>*big.Int\<close> is an error.
  Byte strings are \<open>string\<close>s.
\<close>
















section \<open>The Android legacy log (irma, legacy file)\<close>

text \<open>
  \<open>strings.Index\<close> and \<open>strings.Replace\<close> for a non-empty \<open>old\<close> and a count \<open>n \<ge> 0\<close>, the
  only way \<open>GetTime\<close> calls them.
\<close>

fun strings_Index :: "string \<Rightarrow> string \<Rightarrow> nat option" where
  "strings_Index [] old = (if old = [] then Some 0 else None)"
| "strings_Index (c # cs) old =
     (if take (length old) (c # cs) = old then Some 0
      else map_option Suc (strings_Index cs old))"

fun strings_Replace :: "string \<Rightarrow> string \<Rightarrow> string \<Rightarrow> nat \<Rightarrow> string" where
  "strings_Replace s old new 0 = s"
| "strings_Replace s old new (Suc n) =
     (case strings_Index s old of
        None \<Rightarrow> s
      | Some i \<Rightarrow> take i s @ new @ strings_Replace (drop (i + length old) s) old new n)"

definition androidLogVerificationType :: string where
  "androidLogVerificationType = ''verification''"
definition androidLogIssueType :: string where
  "androidLogIssueType = ''issue''"
definition androidLogSignatureType :: string where
  "androidLogSignatureType = ''signature''"
definition androidLogRemoveType :: string where
  "androidLogRemoveType = ''remove''"
definition androidLogTimeFormat :: string where
  "androidLogTimeFormat = ''January 2, 2006 3:04:05 PM MST -07:00''"

record androidLogEntry =
  Time :: string
  Credential_Identifier :: string

type_synonym androidLogIssuance = androidLogEntry
type_synonym androidLogRemoval = androidLogEntry

record androidLogVerification = androidLogEntry +
  Disclosed :: "string \<rightharpoonup> bool"

record androidLogSignature = androidLogVerification +
  Message_log :: string

record androidLogEnvelope =
  Type_env :: string
  Value :: string

text \<open>
  \<open>time.Parse\<close> is the standard library: a parameter, which returns the parsed time (the
  zero time on failure) and the error. \<open>GetTime\<close> drops the error.
\<close>

definition GetTime ::
  "(string \<Rightarrow> string \<Rightarrow> Timestamp \<times> go_error option) \<Rightarrow> 'a androidLogEntry_scheme \<Rightarrow> Timestamp" where
  "GetTime time_Parse entry =
     (let fixed = strings_Replace (Time entry) ''+'' '' +'' 1;
          parsed = fst (time_Parse androidLogTimeFormat fixed)
      in parsed)"

text \<open>
  \<open>json.Unmarshal\<close> into each of the four typed values is a parameter: it returns the value
  as filled in and the error. \<open>Parse\<close> returns the typed value and that error, or nil and an
  error of its own.
\<close>

datatype androidLog =
    Verification androidLogVerification
  | Issuance androidLogIssuance
  | Signature androidLogSignature
  | Removal androidLogRemoval

record json_Unmarshal =
  intoVerification :: "string \<Rightarrow> androidLogVerification \<times> go_error option"
  intoIssuance :: "string \<Rightarrow> androidLogIssuance \<times> go_error option"
  intoSignature :: "string \<Rightarrow> androidLogSignature \<times> go_error option"
  intoRemoval :: "string \<Rightarrow> androidLogRemoval \<times> go_error option"

definition Parse_env :: "json_Unmarshal \<Rightarrow> androidLogEnvelope \<Rightarrow> androidLog option \<times> go_error option" where
  "Parse_env unmarshal env =
     (if Type_env env = androidLogVerificationType then
        (case intoVerification unmarshal (Value env) of (val, err) \<Rightarrow> (Some (Verification val), err))
      else if Type_env env = androidLogIssueType then
        (case intoIssuance unmarshal (Value env) of (val, err) \<Rightarrow> (Some (Issuance val), err))
      else if Type_env env = androidLogSignatureType then
        (case intoSignature unmarshal (Value env) of (val, err) \<Rightarrow> (Some (Signature val), err))
      else if Type_env env = androidLogRemoveType then
        (case intoRemoval unmarshal (Value env) of (val, err) \<Rightarrow> (Some (Removal val), err))
      else (None, Some (ErrNew ''Invalid Android log type'')))"

subsection \<open>A reading of the layout, for the concrete instances\<close>

text \<open>
  What \<open>time.Parse\<close> does with the layout \<open>androidLogTimeFormat\<close>, step by step: the month
  name, the day, the four-digit year, the 12-hour clock with \<open>AM\<close>/\<open>PM\<close>, a zone
  abbreviation of three to five capitals (\<open>GMT\<close> may carry an hour offset of its own), and
  the numeric offset \<open>\<plusminus>hh:mm\<close>, which decides the instant; between the fields, runs of
  spaces count as one space. It stands in for the parameter in the concrete instances only.
\<close>

definition cutspace :: "string \<Rightarrow> string" where
  "cutspace s = dropWhile (\<lambda>c. c = CHR '' '') s"

function skip :: "string \<Rightarrow> string \<Rightarrow> string option" where
  "skip v [] = Some v"
| "skip v (p # ps) =
     (if p = CHR '' '' then
        (if v \<noteq> [] \<and> hd v \<noteq> CHR '' '' then None else skip (cutspace v) (cutspace ps))
      else if v = [] \<or> hd v \<noteq> p then None
      else skip (tl v) ps)"
  by pat_completeness auto
termination
  by (relation "measure (\<lambda>(v, p). length p)")
     (auto simp: cutspace_def intro: le_imp_less_Suc length_dropWhile_le)

definition getnum :: "string \<Rightarrow> bool \<Rightarrow> (nat \<times> string) option" where
  "getnum s fixed =
     (case s of
        [] \<Rightarrow> None
      | a # r \<Rightarrow>
          if \<not> isDigit a then None
          else (case r of
                  [] \<Rightarrow> if fixed then None else Some (digitVal a, r)
                | b # r' \<Rightarrow>
                    if \<not> isDigit b then (if fixed then None else Some (digitVal a, r))
                    else Some (digitVal a * 10 + digitVal b, r')))"

definition lower :: "char \<Rightarrow> char" where
  "lower c = (if 65 \<le> (of_char c :: nat) \<and> (of_char c :: nat) \<le> 90
              then char_of ((of_char c :: nat) + 32) else c)"

definition longMonthNames :: "string list" where
  "longMonthNames = [''January'', ''February'', ''March'', ''April'', ''May'', ''June'', ''July'',
                     ''August'', ''September'', ''October'', ''November'', ''December'']"

fun lookup :: "string list \<Rightarrow> nat \<Rightarrow> string \<Rightarrow> (nat \<times> string) option" where
  "lookup [] i val = None"
| "lookup (v # tab) i val =
     (if length v \<le> length val \<and> map lower (take (length v) val) = map lower v
      then Some (i, drop (length v) val)
      else lookup tab (Suc i) val)"

definition isUpper :: "char \<Rightarrow> bool" where
  "isUpper c = (65 \<le> (of_char c :: nat) \<and> (of_char c :: nat) \<le> 90)"

definition parseGMT :: "string \<Rightarrow> nat" where
  "parseGMT v =
     (case drop 3 v of
        [] \<Rightarrow> 3
      | sign # r \<Rightarrow>
          if sign \<noteq> CHR ''-'' \<and> sign \<noteq> CHR ''+'' then 3
          else let ds = takeWhile isDigit r
               in if ds = [] \<or> 23 < digitsVal 0 ds then 3 else 3 + 1 + length ds)"

definition parseTimeZone :: "string \<Rightarrow> nat option" where
  "parseTimeZone v =
     (if length v < 3 then None
      else if take 4 v = ''ChST'' \<or> take 4 v = ''MeST'' then Some 4
      else if take 3 v = ''GMT'' then Some (parseGMT v)
      else let nUpper = length (takeWhile isUpper (take 6 v))
           in if nUpper = 5 then (if v ! 4 = CHR ''T'' then Some 5 else None)
              else if nUpper = 4 then
                (if v ! 3 = CHR ''T'' \<or> take 4 v = ''WITA'' then Some 4 else None)
              else if nUpper = 3 then Some 3
              else None)"

definition isLeap :: "int \<Rightarrow> bool" where
  "isLeap y = (y mod 4 = 0 \<and> (y mod 100 \<noteq> 0 \<or> y mod 400 = 0))"

definition daysIn :: "nat \<Rightarrow> int \<Rightarrow> nat" where
  "daysIn m y =
     (if m = 2 then (if isLeap y then 29 else 28)
      else if m = 4 \<or> m = 6 \<or> m = 9 \<or> m = 11 then 30 else 31)"

text \<open>Days from 1970-01-01 to the given civil date.\<close>

definition daysFromCivil :: "int \<Rightarrow> int \<Rightarrow> int \<Rightarrow> int" where
  "daysFromCivil y m d =
     (let y' = (if m \<le> 2 then y - 1 else y);
          era = y' div 400;
          yoe = y' - era * 400;
          doy = (153 * (m + (if 2 < m then - 3 else 9)) + 2) div 5 + d - 1;
          doe = yoe * 365 + yoe div 4 - yoe div 100 + doy
      in era * 146097 + doe - 719468)"

definition zeroTime :: Timestamp where
  "zeroTime = \<lparr>unixSec = - 62135596800, nsec = 0, loc = ''UTC''\<rparr>"

definition parseOffset :: "string \<Rightarrow> (int \<times> string) option" where
  "parseOffset v =
     (if length v < 6 \<or> v ! 3 \<noteq> CHR '':'' then None
      else if \<not> (isDigit (v ! 1) \<and> isDigit (v ! 2) \<and> isDigit (v ! 4) \<and> isDigit (v ! 5)) then None
      else let hr = int (digitVal (v ! 1) * 10 + digitVal (v ! 2));
               mm = int (digitVal (v ! 4) * 10 + digitVal (v ! 5));
               off = (hr * 60 + mm) * 60
           in if v ! 0 = CHR ''+'' then Some (off, drop 6 v)
              else if v ! 0 = CHR ''-'' then Some (- off, drop 6 v)
              else None)"

definition parseFields :: "string \<Rightarrow> Timestamp option" where
  "parseFields value =
     Option.bind (lookup longMonthNames 1 value) (\<lambda>(month, v).
     Option.bind (skip v '' '') (\<lambda>v.
     Option.bind (getnum v False) (\<lambda>(day, v).
     Option.bind (skip v '', '') (\<lambda>v.
     Option.bind (if length v < 4 \<or> \<not> list_all isDigit (take 4 v) then None
                  else Some (digitsVal 0 (take 4 v), drop 4 v)) (\<lambda>(year, v).
     Option.bind (skip v '' '') (\<lambda>v.
     Option.bind (getnum v False) (\<lambda>(hour, v).
     Option.bind (if 12 < hour then None else skip v '':'') (\<lambda>v.
     Option.bind (getnum v True) (\<lambda>(minute, v).
     Option.bind (if 60 \<le> minute then None else skip v '':'') (\<lambda>v.
     Option.bind (getnum v True) (\<lambda>(second, v).
     Option.bind (if 60 \<le> second then None else skip v '' '') (\<lambda>v.
     Option.bind (if take 2 v = ''PM'' then Some (True, drop 2 v)
                  else if take 2 v = ''AM'' then Some (False, drop 2 v) else None) (\<lambda>(pm, v).
     Option.bind (skip v '' '') (\<lambda>v.
     Option.bind (if take 3 v = ''UTC'' then Some 3 else parseTimeZone v) (\<lambda>n.
     Option.bind (skip (drop n v) '' '') (\<lambda>v'.
     Option.bind (parseOffset v') (\<lambda>(zoneOffset, rest).
       if rest \<noteq> [] then None
       else if day < 1 \<or> daysIn month (int year) < day then None
       else
         let hour' = (if pm \<and> hour < 12 then hour + 12
                      else if \<not> pm \<and> hour = 12 then 0 else hour);
             secs = daysFromCivil (int year) (int month) (int day) * 86400
                    + int hour' * 3600 + int minute * 60 + int second - zoneOffset
         in Some \<lparr>unixSec = word_of_int secs, nsec = 0, loc = take n v\<rparr>)))))))))))))))))"

definition time_Parse_layout :: "string \<Rightarrow> string \<Rightarrow> Timestamp \<times> go_error option" where
  "time_Parse_layout layout value =
     (case parseFields value of
        Some t \<Rightarrow> (t, None)
      | None \<Rightarrow> (zeroTime, Some (ErrNew ''parsing time: cannot parse'')))"

definition no_json :: json_Unmarshal where
  "no_json =
     \<lparr>intoVerification = (\<lambda>b. (\<lparr>Time = b, Credential_Identifier = [], Disclosed = Map.empty\<rparr>, None)),
      intoIssuance = (\<lambda>b. (\<lparr>Time = b, Credential_Identifier = []\<rparr>, None)),
      intoSignature = (\<lambda>b. (\<lparr>Time = b, Credential_Identifier = [], Disclosed = Map.empty,
                              Message_log = []\<rparr>, None)),
      intoRemoval = (\<lambda>b. (\<lparr>Time = b, Credential_Identifier = []\<rparr>, None))\<rparr>"

section \<open>Protocol version negotiation: properties\<close>

lemma of_char_digitChar: "d < 10 \<Longrightarrow> of_char (digitChar d) = 48 + d"
  by (simp add: digitChar_def)

lemma isDigit_digitChar: "d < 10 \<Longrightarrow> isDigit (digitChar d)"
  by (simp add: isDigit_def of_char_digitChar)

lemma digitVal_digitChar: "d < 10 \<Longrightarrow> digitVal (digitChar d) = d"
  by (simp add: digitVal_def of_char_digitChar)

lemma string_of_byte_digit: "isDigit c \<Longrightarrow> string_of_byte c = [c]"
  by (simp add: string_of_byte_def isDigit_def)

lemma Atoi_digit: "isDigit c \<Longrightarrow> Atoi [c] = Inr (int (digitVal c))"
proof -
  assume d: "isDigit c"
  then have "c \<noteq> CHR ''-''" "c \<noteq> CHR ''+''" by (auto simp: isDigit_def)
  moreover have "digitVal c < 10" using d by (auto simp: isDigit_def digitVal_def)
  ultimately show ?thesis using d by (simp add: Atoi_def Let_def)
qed

lemma Atoi_nondigit:
  "\<not> isDigit c \<Longrightarrow> Atoi (string_of_byte c) = Inl (ErrSyntax (string_of_byte c))"
  by (auto simp: Atoi_def Let_def string_of_byte_def isDigit_def split: list.splits)

text \<open>The three outcomes of reading one position of a version string.\<close>

lemma atoiAt_cases:
  "atoiAt s i =
     (if \<not> i < length s then Panic index_out_of_range
      else if isDigit (s ! i) then Ok (int (digitVal (s ! i)))
      else Error (ErrSyntax (string_of_byte (s ! i))))"
  by (simp add: atoiAt_def Atoi_nondigit Atoi_digit string_of_byte_digit)

lemma scanMinors_find:
  "scanMinors major ms a b c d = find (\<lambda>p. lexLe (a, b) p \<and> lexLe p (c, d)) (map (Pair major) ms)"
  by (induction ms) (auto simp: aboveMinimum_def underMaximum_def lexLe_def)

lemma find_append_case:
  "find P (xs @ ys) = (case find P xs of Some x \<Rightarrow> Some x | None \<Rightarrow> find P ys)"
  by (induction xs) auto

lemma scanMajors_find:
  "scanMajors sv keys a b c d =
     find (\<lambda>p. lexLe (a, b) p \<and> lexLe p (c, d))
       (concat (map (\<lambda>major. map (Pair major)
                                (case map_of sv major of Some ms \<Rightarrow> ms | None \<Rightarrow> [])) keys))"
  by (induction keys) (simp_all add: scanMinors_find find_append_case split: option.splits)

lemma scanMajors_firstInRange:
  "scanMajors sv (sortedKeys sv) a b c d = firstInRange sv (a, b) (c, d)"
  by (simp add: scanMajors_find firstInRange_def supportedPairs_def sortedKeys_def)

lemma supportedPairs_supportedVersions: "supportedPairs supportedVersions = [(2, 2), (2, 1)]"
  by (simp add: supportedPairs_def supportedVersions_def)

lemma calcVersionIn_digits:
  assumes "a < 10" "b < 10" "c < 10" "d < 10"
    and "ProtocolVersion qr = digitChar a # x # digitChar b # r"
    and "ProtocolMaxVersion qr = digitChar c # y # digitChar d # r'"
  shows "calcVersionIn sv qr =
           (case firstInRange sv (int a, int b) (int c, int d) of
              Some (major, minor) \<Rightarrow> Ok (Sprint_int major @ ''.'' @ Sprint_int minor)
            | None \<Rightarrow> Error (Errorf (''No supported protocol version between ''
                         @ ProtocolVersion qr @ '' and '' @ ProtocolMaxVersion qr)))"
  using assms
  by (simp add: calcVersionIn_def atoiAt_cases isDigit_digitChar digitVal_digitChar
      scanMajors_firstInRange)

lemma session_fail_fresh:
  "\<not> sdone s \<Longrightarrow> downloaded s = None \<Longrightarrow>
   session_fail err s =
     s\<lparr>sdone := True,
       trace := trace s @ (if ServerURL s \<noteq> [] then [transport_Delete] else [])
                @ [Handler_Failure (Action s) (err\<lparr>Err := map_option ErrWrap (Err err)\<rparr>)]\<rparr>"
  by (simp add: session_fail_def session_delete_def announceDownloaded_def emit_def
      IsInteractive_def)

lemma calcVersion_panic_iff:
  "calcVersion qr = Panic p \<longleftrightarrow>
     p = index_out_of_range \<and>
     (ProtocolVersion qr = []
      \<or> (isDigit (ProtocolVersion qr ! 0) \<and> length (ProtocolVersion qr) < 3)
      \<or> (3 \<le> length (ProtocolVersion qr) \<and> isDigit (ProtocolVersion qr ! 0)
          \<and> isDigit (ProtocolVersion qr ! 2)
          \<and> (ProtocolMaxVersion qr = []
              \<or> (isDigit (ProtocolMaxVersion qr ! 0) \<and> length (ProtocolMaxVersion qr) < 3))))"
  unfolding calcVersion_def calcVersionIn_def atoiAt_cases
  by (auto split: option.splits prod.splits)

lemma calcVersion_two_digit_major:
  "isDigit c1 \<Longrightarrow> ProtocolVersion qr = c1 # c2 # CHR ''.'' # rest \<Longrightarrow>
   calcVersion qr = Error (ErrSyntax ''.'')"
  unfolding calcVersion_def calcVersionIn_def atoiAt_cases
  by (simp add: isDigit_def string_of_byte_def)

lemma calcVersion_only_bytes_0_2:
  "3 \<le> length (ProtocolVersion qr) \<Longrightarrow> 3 \<le> length (ProtocolMaxVersion qr) \<Longrightarrow>
   3 \<le> length (ProtocolVersion qr') \<Longrightarrow> 3 \<le> length (ProtocolMaxVersion qr') \<Longrightarrow>
   ProtocolVersion qr ! 0 = ProtocolVersion qr' ! 0 \<Longrightarrow>
   ProtocolVersion qr ! 2 = ProtocolVersion qr' ! 2 \<Longrightarrow>
   ProtocolMaxVersion qr ! 0 = ProtocolMaxVersion qr' ! 0 \<Longrightarrow>
   ProtocolMaxVersion qr ! 2 = ProtocolMaxVersion qr' ! 2 \<Longrightarrow>
   (calcVersion qr = Ok s \<longleftrightarrow> calcVersion qr' = Ok s)"
  unfolding calcVersion_def calcVersionIn_def atoiAt_cases
  by (auto split: option.splits prod.splits)

text \<open>
  C2 (as amended). For every QR whose two version strings carry a decimal digit at byte 0
  and at byte 2 (so for every single-digit \<open>major.minor\<close> range), \<open>calcVersion\<close>, for any
  table of supported versions, returns the first supported pair, majors descending and
  each major's minors in the listed order, that lies lexicographically between
  \<open>(minMajor, minMinor)\<close> and \<open>(maxMajor, maxMinor)\<close>, and fails when there is none; the
  supported pairs are 2.2 and 2.1 in this order; and when there is none and the QR is not
  a scheme-manager QR, \<open>NewSession\<close> returns nil after one \<open>Failure\<close> callback of type
  \<open>ProtocolVersionNotSupported\<close>, preceded by the DELETE when the QR has a URL.
\<close>

theorem calcVersion_first_supported_in_range:
  assumes "a < 10" "b < 10" "c < 10" "d < 10"
    and "ProtocolVersion qr = digitChar a # x # digitChar b # r"
    and "ProtocolMaxVersion qr = digitChar c # y # digitChar d # r'"
  shows "calcVersionIn sv qr =
           (case firstInRange sv (int a, int b) (int c, int d) of
              Some (major, minor) \<Rightarrow> Ok (Sprint_int major @ ''.'' @ Sprint_int minor)
            | None \<Rightarrow> Error (Errorf (''No supported protocol version between ''
                         @ ProtocolVersion qr @ '' and '' @ ProtocolMaxVersion qr)))
         \<and> calcVersion qr = calcVersionIn supportedVersions qr
         \<and> supportedPairs supportedVersions = [(2, 2), (2, 1)]
         \<and> (firstInRange supportedVersions (int a, int b) (int c, int d) = None
              \<and> Type qr \<noteq> ActionSchemeManager \<longrightarrow>
            (case NewSession qr of
               Inl v \<Rightarrow> False
             | Inr (t, s) \<Rightarrow>
                 t = returned_nil \<and> sdone s \<and>
                 trace s = (if URL qr \<noteq> [] then [transport_Delete] else [])
                   @ [Handler_Failure (Type qr)
                        \<lparr>ErrorType = ErrorProtocolVersionNotSupported, Info = [],
                         Err = Some (ErrWrap (Errorf (''No supported protocol version between ''
                           @ ProtocolVersion qr @ '' and '' @ ProtocolMaxVersion qr)))\<rparr>]))"
proof -
  note cv = calcVersionIn_digits [OF assms]
  have 1: "calcVersion qr = calcVersionIn supportedVersions qr"
    by (simp add: calcVersion_def)
  have 2: "firstInRange supportedVersions (int a, int b) (int c, int d) = None
             \<and> Type qr \<noteq> ActionSchemeManager \<longrightarrow>
            (case NewSession qr of
               Inl v \<Rightarrow> False
             | Inr (t, s) \<Rightarrow>
                 t = returned_nil \<and> sdone s \<and>
                 trace s = (if URL qr \<noteq> [] then [transport_Delete] else [])
                   @ [Handler_Failure (Type qr)
                        \<lparr>ErrorType = ErrorProtocolVersionNotSupported, Info = [],
                         Err = Some (ErrWrap (Errorf (''No supported protocol version between ''
                           @ ProtocolVersion qr @ '' and '' @ ProtocolMaxVersion qr)))\<rparr>])"
    by (simp add: NewSession_def Let_def 1 cv [of supportedVersions] session_fail_fresh)
  show ?thesis
    using cv [of sv] 1 2 supportedPairs_supportedVersions by blast
qed

theorem calcVersion_first_supported_in_range_witness:
  "calcVersion \<lparr>URL = ''https://example.com/irma'', ProtocolVersion = ''2.1'',
                ProtocolMaxVersion = ''2.3'', Type = ''disclosing''\<rparr> = Ok ''2.2''
   \<and> (case NewSession \<lparr>URL = ''https://example.com/irma'', ProtocolVersion = ''2.3'',
                        ProtocolMaxVersion = ''2.4'', Type = ''disclosing''\<rparr> of
        Inl v \<Rightarrow> False
      | Inr (t, s) \<Rightarrow>
          t = returned_nil \<and> sdone s \<and>
          trace s = [transport_Delete,
                     Handler_Failure ''disclosing''
                       \<lparr>ErrorType = ErrorProtocolVersionNotSupported, Info = [],
                        Err = Some (ErrWrap (Errorf
                          ''No supported protocol version between 2.3 and 2.4''))\<rparr>])"
proof -
  have f1: "firstInRange supportedVersions (2, 1) (2, 3) = Some (2, 2)"
    by (simp add: firstInRange_def supportedPairs_supportedVersions lexLe_def)
  have f2: "firstInRange supportedVersions (2, 3) (2, 4) = None"
    by (simp add: firstInRange_def supportedPairs_supportedVersions lexLe_def)
  have s22: "Sprint_int 2 = ''2''"
    by code_simp
  have d1: "digitChar (Suc 0) = CHR ''1''" by code_simp
  have d2: "digitChar 2 = CHR ''2''" by code_simp
  have d3: "digitChar 3 = CHR ''3''" by code_simp
  have d4: "digitChar 4 = CHR ''4''" by code_simp
  note d = d1 d2 d3 d4
  have a: "calcVersion \<lparr>URL = ''https://example.com/irma'', ProtocolVersion = ''2.1'',
                ProtocolMaxVersion = ''2.3'', Type = ''disclosing''\<rparr> = Ok ''2.2''"
    using calcVersion_first_supported_in_range
      [of 2 1 2 3 "\<lparr>URL = ''https://example.com/irma'', ProtocolVersion = ''2.1'',
                ProtocolMaxVersion = ''2.3'', Type = ''disclosing''\<rparr>" "CHR ''.''" "[]"
          "CHR ''.''" "[]" supportedVersions]
    by (simp add: d f1 s22)
  have b: "(case NewSession \<lparr>URL = ''https://example.com/irma'', ProtocolVersion = ''2.3'',
                        ProtocolMaxVersion = ''2.4'', Type = ''disclosing''\<rparr> of
        Inl v \<Rightarrow> False
      | Inr (t, s) \<Rightarrow>
          t = returned_nil \<and> sdone s \<and>
          trace s = [transport_Delete,
                     Handler_Failure ''disclosing''
                       \<lparr>ErrorType = ErrorProtocolVersionNotSupported, Info = [],
                        Err = Some (ErrWrap (Errorf
                          ''No supported protocol version between 2.3 and 2.4''))\<rparr>])"
    using calcVersion_first_supported_in_range
      [of 2 3 2 4 "\<lparr>URL = ''https://example.com/irma'', ProtocolVersion = ''2.3'',
                ProtocolMaxVersion = ''2.4'', Type = ''disclosing''\<rparr>" "CHR ''.''" "[]"
          "CHR ''.''" "[]" supportedVersions]
    by (auto simp add: d f2 ActionSchemeManager_def split: sum.splits prod.splits)
  show ?thesis using a b by (rule conjI)
qed

text \<open>
  The claim as stated fails for a multi-digit minor: in the range \<open>[2.0, 2.10]\<close> the first
  supported pair is 2.2, but \<open>calcVersion\<close> reads the maximum as 2.1 and returns 2.1.
\<close>

theorem calcVersion_multi_digit_counterexample:
  "firstInRange supportedVersions (2, 0) (2, 10) = Some (2, 2)
   \<and> calcVersion \<lparr>URL = ''https://example.com/irma'', ProtocolVersion = ''2.0'',
                  ProtocolMaxVersion = ''2.10'', Type = ''disclosing''\<rparr> = Ok ''2.1''"
proof
  show "firstInRange supportedVersions (2, 0) (2, 10) = Some (2, 2)"
    by (simp add: firstInRange_def supportedPairs_supportedVersions lexLe_def)
  show "calcVersion \<lparr>URL = ''https://example.com/irma'', ProtocolVersion = ''2.0'',
                  ProtocolMaxVersion = ''2.10'', Type = ''disclosing''\<rparr> = Ok ''2.1''"
    by code_simp
qed

text \<open>
  C9 (as amended). \<open>calcVersion\<close> reads byte 0 and byte 2 of the minimum and then of the
  maximum version string, stopping at the first step that fails. It panics with an index
  out of range exactly when a string is reached that is empty, or that starts with a digit
  and has fewer than three bytes (a shorter string whose first byte is no digit gives an
  ordinary \<open>Atoi\<close> error instead). For strings of at least three bytes the negotiated
  version depends on bytes 0 and 2 only, so of \<open>2.10\<close> only \<open>2.1\<close> is read. A version whose
  major has two digits has the dot at byte 2 and is rejected with a syntax error.
\<close>

theorem calcVersion_reads_bytes_0_and_2:
  "(calcVersion qr = Panic p \<longleftrightarrow>
      p = index_out_of_range \<and>
      (ProtocolVersion qr = []
       \<or> (isDigit (ProtocolVersion qr ! 0) \<and> length (ProtocolVersion qr) < 3)
       \<or> (3 \<le> length (ProtocolVersion qr) \<and> isDigit (ProtocolVersion qr ! 0)
           \<and> isDigit (ProtocolVersion qr ! 2)
           \<and> (ProtocolMaxVersion qr = []
               \<or> (isDigit (ProtocolMaxVersion qr ! 0) \<and> length (ProtocolMaxVersion qr) < 3)))))
   \<and> (3 \<le> length (ProtocolVersion qa) \<and> 3 \<le> length (ProtocolMaxVersion qa)
      \<and> 3 \<le> length (ProtocolVersion qb) \<and> 3 \<le> length (ProtocolMaxVersion qb)
      \<and> ProtocolVersion qa ! 0 = ProtocolVersion qb ! 0
      \<and> ProtocolVersion qa ! 2 = ProtocolVersion qb ! 2
      \<and> ProtocolMaxVersion qa ! 0 = ProtocolMaxVersion qb ! 0
      \<and> ProtocolMaxVersion qa ! 2 = ProtocolMaxVersion qb ! 2
      \<longrightarrow> (calcVersion qa = Ok v \<longleftrightarrow> calcVersion qb = Ok v))
   \<and> (isDigit c1 \<and> ProtocolVersion qc = c1 # c2 # CHR ''.'' # rest
      \<longrightarrow> calcVersion qc = Error (ErrSyntax ''.''))"
  using calcVersion_panic_iff [of qr p] calcVersion_only_bytes_0_2 [of qa qb v]
    calcVersion_two_digit_major [of c1 qc c2 rest]
  by blast

theorem calcVersion_reads_bytes_0_and_2_witness:
  "calcVersion \<lparr>URL = ''u'', ProtocolVersion = ''2'', ProtocolMaxVersion = ''2.2'',
                Type = ''disclosing''\<rparr> = Panic index_out_of_range
   \<and> calcVersion \<lparr>URL = ''u'', ProtocolVersion = ''2.0'', ProtocolMaxVersion = ''2.10'',
                Type = ''disclosing''\<rparr> = Ok ''2.1''
   \<and> calcVersion \<lparr>URL = ''u'', ProtocolVersion = ''10.2'', ProtocolMaxVersion = ''10.4'',
                Type = ''disclosing''\<rparr> = Error (ErrSyntax ''.'')"
proof -
  note t = calcVersion_reads_bytes_0_and_2
    [of "\<lparr>URL = ''u'', ProtocolVersion = ''2'', ProtocolMaxVersion = ''2.2'',
           Type = ''disclosing''\<rparr>" index_out_of_range
        "\<lparr>URL = ''u'', ProtocolVersion = ''2.0'', ProtocolMaxVersion = ''2.10'',
           Type = ''disclosing''\<rparr>"
        "\<lparr>URL = ''u'', ProtocolVersion = ''2.0'', ProtocolMaxVersion = ''2.1'',
           Type = ''disclosing''\<rparr>" "''2.1''" "CHR ''1''"
        "\<lparr>URL = ''u'', ProtocolVersion = ''10.2'', ProtocolMaxVersion = ''10.4'',
           Type = ''disclosing''\<rparr>" "CHR ''0''" "''2''"]
  have r: "calcVersion \<lparr>URL = ''u'', ProtocolVersion = ''2.0'', ProtocolMaxVersion = ''2.1'',
           Type = ''disclosing''\<rparr> = Ok ''2.1''"
    by code_simp
  show ?thesis using t r by (simp add: isDigit_def)
qed

text \<open>
  The claim as stated fails twice: a version string shorter than three bytes need not
  index out of bounds (\<open>x\<close> gives a syntax error), and a two-digit major is not read by its
  first digit (\<open>10.2\<close> gives a syntax error on the dot).
\<close>

theorem calcVersion_short_or_long_major_counterexample:
  "length (ProtocolVersion \<lparr>URL = ''u'', ProtocolVersion = ''x'', ProtocolMaxVersion = ''2.2'',
                            Type = ''disclosing''\<rparr>) < 3
   \<and> calcVersion \<lparr>URL = ''u'', ProtocolVersion = ''x'', ProtocolMaxVersion = ''2.2'',
                  Type = ''disclosing''\<rparr> = Error (ErrSyntax ''x'')
   \<and> calcVersion \<lparr>URL = ''u'', ProtocolVersion = ''10.2'', ProtocolMaxVersion = ''10.4'',
                  Type = ''disclosing''\<rparr> = Error (ErrSyntax ''.'')"
  by code_simp

section \<open>Session lifetime: properties\<close>

lemma isDelete_simps [simp]:
  "isDelete transport_Delete"
  "\<not> isDelete (Handler_Failure a err)"
  "\<not> isDelete (Handler_Cancelled a)"
  "\<not> isDelete (Handler_Success a m)"
  "\<not> isDelete (clientHandler_UpdateConfiguration d)"
  "\<not> isDelete clientHandler_UpdateAttributes"
  "\<not> isDelete client_addLogEntry"
  "\<not> isDelete (transport_Post p)"
  by (simp_all add: isDelete_def)

lemma deletes_emit [simp]: "deletes (emit e s) = deletes s + (if isDelete e then 1 else 0)"
  by (simp add: deletes_def emit_def)

lemma deletes_sdone_update [simp]: "deletes (s\<lparr>sdone := b\<rparr>) = deletes s"
  by (simp add: deletes_def)

lemma sdone_emit [simp]: "sdone (emit e s) = sdone s"
  by (simp add: emit_def)

lemma session_delete_eq:
  "session_delete s =
     (if sdone s then (False, s)
      else (True, s\<lparr>sdone := True,
                     trace := trace s @ (if IsInteractive s then [transport_Delete] else [])\<rparr>))"
  by (simp add: session_delete_def emit_def)

lemma session_fail_trace:
  "\<not> sdone s \<Longrightarrow>
   session_fail err s =
     s\<lparr>sdone := True,
       trace := trace s @ ending_events s
                  (Handler_Failure (Action s) (err\<lparr>Err := map_option ErrWrap (Err err)\<rparr>))\<rparr>"
  by (simp add: session_fail_def session_delete_def announceDownloaded_def emit_def
      ending_events_def IsInteractive_def split: option.splits)

lemma session_cancel_trace:
  "\<not> sdone s \<Longrightarrow>
   session_cancel s =
     s\<lparr>sdone := True, trace := trace s @ ending_events s (Handler_Cancelled (Action s))\<rparr>"
  by (simp add: session_cancel_def session_delete_def announceDownloaded_def emit_def
      ending_events_def IsInteractive_def split: option.splits)

lemma session_fail_done: "sdone s \<Longrightarrow> session_fail err s = s"
  by (simp add: session_fail_def session_delete_def)

lemma session_cancel_done: "sdone s \<Longrightarrow> session_cancel s = s"
  by (simp add: session_cancel_def session_delete_def)

lemma deletes_trace_append:
  "deletes (s\<lparr>sdone := b, trace := trace s @ es\<rparr>) = deletes s + length (filter isDelete es)"
  by (simp add: deletes_def)

lemma deletes_ending_events:
  "\<not> isDelete outcome \<Longrightarrow>
   length (filter isDelete (ending_events s outcome)) = (if IsInteractive s then 1 else 0)"
  by (simp add: ending_events_def split: option.splits)

lemma delete_inv_fail: "delete_inv s \<Longrightarrow> delete_inv (session_fail err s)"
  by (cases "sdone s")
     (auto simp: session_fail_done session_fail_trace delete_inv_def deletes_trace_append
        deletes_ending_events)

lemma delete_inv_cancel: "delete_inv s \<Longrightarrow> delete_inv (session_cancel s)"
  by (cases "sdone s")
     (auto simp: session_cancel_done session_cancel_trace delete_inv_def deletes_trace_append
        deletes_ending_events)

lemma delete_inv_emit: "\<not> isDelete e \<Longrightarrow> delete_inv s \<Longrightarrow> delete_inv (emit e s)"
  by (simp add: delete_inv_def)

lemma delete_inv_tail: "delete_inv s \<Longrightarrow> delete_inv (snd (sendResponse_tail m s))"
  by (auto simp: sendResponse_tail_def Let_def delete_inv_def split: option.splits)

lemma delete_inv_sendResponse: "delete_inv s \<Longrightarrow> delete_inv (snd (sendResponse c s))"
  by (auto simp: sendResponse_def delete_inv_fail delete_inv_tail delete_inv_emit
      split: sum.splits option.splits)

lemma delete_inv_step: "delete_inv s \<Longrightarrow> delete_inv (ending_step op s)"
  by (cases op) (simp_all add: delete_inv_fail delete_inv_cancel delete_inv_sendResponse
      session_Dismiss_def)

lemma delete_inv_run: "delete_inv s \<Longrightarrow> delete_inv (run_endings ops s)"
  unfolding run_endings_def by (induction ops arbitrary: s) (simp_all add: delete_inv_step)

text \<open>
  C3. Whatever session-ending operations (\<open>fail\<close>, \<open>cancel\<close>, \<open>Dismiss\<close>, \<open>sendResponse\<close> with
  any answers of the server) follow one another on a session that has sent no DELETE yet,
  at most one DELETE is sent. \<open>delete\<close> sends it only when \<open>done\<close> is false and the session
  is interactive, and then sets \<open>done\<close>; once \<open>done\<close> is set, \<open>fail\<close>, \<open>cancel\<close> and
  \<open>Dismiss\<close> leave the session, and so its trace of network calls and callbacks, unchanged.
\<close>

theorem delete_at_most_once:
  "(deletes s0 = 0 \<longrightarrow> deletes (run_endings ops s0) \<le> 1)
   \<and> session_delete s =
       (if sdone s then (False, s)
        else (True, s\<lparr>sdone := True,
                       trace := trace s @ (if IsInteractive s then [transport_Delete] else [])\<rparr>))
   \<and> (sdone s \<longrightarrow> session_fail err s = s \<and> session_cancel s = s \<and> session_Dismiss s = s)"
proof -
  have "deletes (run_endings ops s0) \<le> 1" if "deletes s0 = 0"
  proof -
    from that have "delete_inv s0" by (simp add: delete_inv_def)
    then have "delete_inv (run_endings ops s0)" by (rule delete_inv_run)
    then show ?thesis by (auto simp: delete_inv_def)
  qed
  then show ?thesis
    by (simp add: session_delete_eq session_fail_done session_cancel_done session_Dismiss_def)
qed

theorem delete_at_most_once_witness:
  "deletes fresh_session = 0
   \<and> deletes (run_endings [Dismiss, Fail \<lparr>ErrorType = ErrorCrypto, Info = [], Err = None\<rparr>,
                            SendResponse quiet_collaborators, Cancel] fresh_session) \<le> 1
   \<and> sdone (session_Dismiss fresh_session)
   \<and> session_Dismiss (session_Dismiss fresh_session) = session_Dismiss fresh_session"
proof -
  have 0: "deletes fresh_session = 0"
    by (simp add: deletes_def fresh_session_def)
  have 1: "sdone (session_Dismiss fresh_session)"
    by (simp add: session_Dismiss_def session_cancel_trace fresh_session_def)
  show ?thesis
    using 0 1
      delete_at_most_once [of fresh_session
        "[Dismiss, Fail \<lparr>ErrorType = ErrorCrypto, Info = [], Err = None\<rparr>,
          SendResponse quiet_collaborators, Cancel]" "session_Dismiss fresh_session"
        "\<lparr>ErrorType = ErrorCrypto, Info = [], Err = None\<rparr>"]
    by simp
qed

lemma checkSchemeManagers_pass:
  "find (offending client) order = None \<Longrightarrow> checkSchemeManagers client order s = (True, s)"
  by (induction order) (auto simp: offending_def split: option.splits)

lemma checkSchemeManagers_first:
  "find (offending client) order = Some ident \<Longrightarrow>
   checkSchemeManagers client order s = (False, session_fail (schemeManagerError client ident) s)"
  by (induction order)
     (auto simp: offending_def schemeManagerError_def split: option.splits if_splits)

lemma schemeManagerError_unwrapped:
  "(schemeManagerError client ident)
     \<lparr>Err := map_option ErrWrap (Err (schemeManagerError client ident))\<rparr>
   = schemeManagerError client ident"
  by (simp add: schemeManagerError_def split: option.splits)

lemma checkAndUpate_first:
  assumes "\<not> sdone s" and "find (offending client) order = Some ident"
  shows "checkAndUpateConfiguration client order order' s =
           (False, s\<lparr>sdone := True,
                      trace := trace s @ ending_events s
                        (Handler_Failure (Action s) (schemeManagerError client ident))\<rparr>)"
  using assms
  by (simp add: checkAndUpateConfiguration_def checkSchemeManagers_first session_fail_trace
      schemeManagerError_unwrapped)

lemma find_SomeD: "find P xs = Some x \<Longrightarrow> P x \<and> x \<in> set xs"
  by (induction xs) (auto split: if_splits)

text \<open>
  C4 (as amended). Let the session not be done, and let \<open>ident\<close> be the first scheme manager,
  in the order in which the loop visits the identifier set, that is absent from the
  Configuration or present but not valid. Then \<open>checkAndUpateConfiguration\<close> returns false
  having appended only the ending events (DELETE when interactive, the announcement of an
  earlier download if there is one, and one \<open>Failure\<close>) and so before any download or proof
  construction; the error is \<open>UnknownSchemeManager\<close> with \<open>Info\<close> the identifier when
  \<open>ident\<close> is absent, and \<open>InvalidSchemeManager\<close> with \<open>Info\<close> the manager's status when it
  is present but not valid. In particular a session all of whose present managers are valid
  fails with \<open>UnknownSchemeManager\<close>, and one all of whose managers are present fails with
  \<open>InvalidSchemeManager\<close>.
\<close>

theorem first_offending_scheme_manager_fails:
  assumes "\<not> sdone s" and "find (offending client) order = Some ident"
  shows "checkAndUpateConfiguration client order order' s =
           (False, s\<lparr>sdone := True,
                      trace := trace s @ ending_events s
                        (Handler_Failure (Action s) (schemeManagerError client ident))\<rparr>)
         \<and> ident \<in> set order
         \<and> (SchemeManagers_conf client ident = None \<longrightarrow>
              schemeManagerError client ident =
                \<lparr>ErrorType = ErrorUnknownSchemeManager, Info = ident, Err = None\<rparr>)
         \<and> (\<forall>m. SchemeManagers_conf client ident = Some m \<longrightarrow>
              \<not> Valid m \<and>
              schemeManagerError client ident =
                \<lparr>ErrorType = ErrorInvalidSchemeManager, Info = Status m, Err = None\<rparr>)
         \<and> ((\<forall>j \<in> set order. \<forall>m. SchemeManagers_conf client j = Some m \<longrightarrow> Valid m) \<longrightarrow>
              SchemeManagers_conf client ident = None)
         \<and> ((\<forall>j \<in> set order. SchemeManagers_conf client j \<noteq> None) \<longrightarrow>
              SchemeManagers_conf client ident \<noteq> None)"
proof -
  from find_SomeD [OF assms(2)] have off: "offending client ident" and mem: "ident \<in> set order"
    by simp_all
  show ?thesis
    using checkAndUpate_first [OF assms] off mem
    by (auto simp: offending_def schemeManagerError_def split: option.splits)
qed

theorem first_offending_scheme_manager_fails_witness:
  "checkAndUpateConfiguration empty_client [''irma-demo''] [''irma-demo''] fresh_session =
     (False, fresh_session
        \<lparr>sdone := True,
         trace := [transport_Delete,
                   Handler_Failure ''disclosing''
                     \<lparr>ErrorType = ErrorUnknownSchemeManager, Info = ''irma-demo'',
                      Err = None\<rparr>]\<rparr>)"
proof -
  have 1: "\<not> sdone fresh_session" by (simp add: fresh_session_def)
  have 2: "find (offending empty_client) [''irma-demo''] = Some ''irma-demo''"
    by (simp add: offending_def empty_client_def)
  have 3: "SchemeManagers_conf empty_client ''irma-demo'' = None"
    by (simp add: empty_client_def)
  have 4: "ending_events fresh_session e = [transport_Delete, e]" for e
    by (simp add: ending_events_def fresh_session_def IsInteractive_def)
  have 5: "Action fresh_session = ''disclosing''" "trace fresh_session = []"
    by (simp_all add: fresh_session_def)
  show ?thesis
    using first_offending_scheme_manager_fails
      [OF 1 2, of "[''irma-demo'']"] 3 4 5
    by simp
qed

text \<open>
  The claim as stated fails for a session that references both an absent manager
  (\<open>irma-demo\<close>) and a present but invalid one (\<open>test\<close>): it fails once, with the error of
  the manager visited first, so in either visiting order one half of the claim is violated.
\<close>

theorem mixed_scheme_managers_counterexample:
  "SchemeManagers_conf mixed_client ''irma-demo'' = None
   \<and> SchemeManagers_conf mixed_client ''test'' = Some broken_manager
   \<and> \<not> Valid broken_manager
   \<and> trace (snd (checkAndUpateConfiguration mixed_client [''test'', ''irma-demo'']
                    [''test'', ''irma-demo''] fresh_session))
       = [transport_Delete,
          Handler_Failure ''disclosing''
            \<lparr>ErrorType = ErrorInvalidSchemeManager, Info = ''InvalidSignature'', Err = None\<rparr>]
   \<and> trace (snd (checkAndUpateConfiguration mixed_client [''irma-demo'', ''test'']
                    [''irma-demo'', ''test''] fresh_session))
       = [transport_Delete,
          Handler_Failure ''disclosing''
            \<lparr>ErrorType = ErrorUnknownSchemeManager, Info = ''irma-demo'', Err = None\<rparr>]"
  by (simp add: mixed_client_def broken_manager_def fresh_session_def
      checkAndUpateConfiguration_def session_fail_def session_delete_def
      announceDownloaded_def emit_def IsInteractive_def)

lemma checkAndUpate_download:
  assumes "find (offending client) order = None"
    and "checkKeyshareEnrollment client order' s = (True, s)"
  shows "checkAndUpateConfiguration client order order' s =
           (case Download client (Ids s) of
              (d, None) \<Rightarrow>
                (True, s\<lparr>trace := trace s @ [Configuration_Download (Ids s)],
                         downloaded := d\<rparr>)
            | (d, Some e) \<Rightarrow>
                (False,
                 session_fail \<lparr>ErrorType = ErrorConfigurationDownload, Info = [], Err = Some e\<rparr>
                   (s\<lparr>trace := trace s @ [Configuration_Download (Ids s)],
                      downloaded := d\<rparr>)))"
  using assms
  by (simp add: checkAndUpateConfiguration_def checkSchemeManagers_pass emit_def Let_def
      split: prod.splits option.splits)

text \<open>
  C6 (as amended). When a session that is not done ends through \<open>fail\<close> or \<open>cancel\<close>
  (\<open>Dismiss\<close> included), the events appended are, in this order: the DELETE if the session
  is interactive, \<open>UpdateConfiguration\<close> with exactly the \<open>downloaded\<close> set if that set is
  non-nil and non-empty, and then the \<open>Failure\<close> or \<open>Cancelled\<close> callback; with nothing
  downloaded, or before the download step, where \<open>downloaded\<close> is still nil, there is no
  \<open>UpdateConfiguration\<close>. The download step stores what \<open>Download\<close> returns in
  \<open>downloaded\<close>, also when it fails. (A panic caught by the recovery barrier is reported by
  the barrier itself and is not covered.)
\<close>

theorem downloaded_announced_before_outcome:
  "(\<not> sdone s \<longrightarrow>
      trace (session_fail err s) =
        trace s @ (if IsInteractive s then [transport_Delete] else [])
        @ (case downloaded s of
             None \<Rightarrow> []
           | Some d \<Rightarrow> if Empty d then [] else [clientHandler_UpdateConfiguration d])
        @ [Handler_Failure (Action s) (err\<lparr>Err := map_option ErrWrap (Err err)\<rparr>)]
      \<and> trace (session_cancel s) =
        trace s @ (if IsInteractive s then [transport_Delete] else [])
        @ (case downloaded s of
             None \<Rightarrow> []
           | Some d \<Rightarrow> if Empty d then [] else [clientHandler_UpdateConfiguration d])
        @ [Handler_Cancelled (Action s)]
      \<and> session_Dismiss s = session_cancel s)
   \<and> (find (offending client) order = None
      \<and> checkKeyshareEnrollment client order' s' = (True, s') \<longrightarrow>
      checkAndUpateConfiguration client order order' s' =
        (case Download client (Ids s') of
           (d, None) \<Rightarrow>
             (True, s'\<lparr>trace := trace s' @ [Configuration_Download (Ids s')],
                       downloaded := d\<rparr>)
         | (d, Some e) \<Rightarrow>
             (False,
              session_fail \<lparr>ErrorType = ErrorConfigurationDownload, Info = [], Err = Some e\<rparr>
                (s'\<lparr>trace := trace s' @ [Configuration_Download (Ids s')],
                    downloaded := d\<rparr>))))"
  using checkAndUpate_download [of client order order' s']
  by (simp add: session_fail_trace session_cancel_trace ending_events_def session_Dismiss_def)

theorem downloaded_announced_before_outcome_witness:
  "trace (session_fail \<lparr>ErrorType = ErrorCrypto, Info = [], Err = None\<rparr>
            (fresh_session\<lparr>downloaded := Some studentCard_ids\<rparr>))
     = [transport_Delete, clientHandler_UpdateConfiguration studentCard_ids,
        Handler_Failure ''disclosing'' \<lparr>ErrorType = ErrorCrypto, Info = [], Err = None\<rparr>]
   \<and> trace (session_cancel fresh_session) = [transport_Delete, Handler_Cancelled ''disclosing'']
   \<and> checkAndUpateConfiguration empty_client [] [] fresh_session =
       (True, fresh_session
          \<lparr>downloaded := Some \<lparr>SchemeManagers = {}, Issuers = {}, CredentialTypes = {},
                                PublicKeys = []\<rparr>,
           trace := [Configuration_Download studentCard_ids]\<rparr>)"
proof -
  have e: "\<not> Empty studentCard_ids" by (simp add: Empty_def studentCard_ids_def)
  have a: "trace (session_fail \<lparr>ErrorType = ErrorCrypto, Info = [], Err = None\<rparr>
            (fresh_session\<lparr>downloaded := Some studentCard_ids\<rparr>))
     = [transport_Delete, clientHandler_UpdateConfiguration studentCard_ids,
        Handler_Failure ''disclosing'' \<lparr>ErrorType = ErrorCrypto, Info = [], Err = None\<rparr>]"
    using downloaded_announced_before_outcome
      [of "fresh_session\<lparr>downloaded := Some studentCard_ids\<rparr>"
          "\<lparr>ErrorType = ErrorCrypto, Info = [], Err = None\<rparr>" empty_client "[]" "[]"
          fresh_session] e
    by (simp add: fresh_session_def IsInteractive_def)
  have b: "trace (session_cancel fresh_session) = [transport_Delete, Handler_Cancelled ''disclosing'']
   \<and> checkAndUpateConfiguration empty_client [] [] fresh_session =
       (True, fresh_session
          \<lparr>downloaded := Some \<lparr>SchemeManagers = {}, Issuers = {}, CredentialTypes = {},
                                PublicKeys = []\<rparr>,
           trace := [Configuration_Download studentCard_ids]\<rparr>)"
    using downloaded_announced_before_outcome
      [of fresh_session "\<lparr>ErrorType = ErrorCrypto, Info = [], Err = None\<rparr>" empty_client
          "[]" "[]" fresh_session]
    by (simp add: fresh_session_def IsInteractive_def empty_client_def no_download_def)
  show ?thesis using a b by simp
qed

text \<open>
  The claim as stated fails when the failure is a recovered panic: with a non-empty
  \<open>downloaded\<close> set, a panic during proof construction ends the session with a \<open>Failure\<close>
  callback that no \<open>UpdateConfiguration\<close> precedes.
\<close>

theorem panic_failure_not_announced_counterexample:
  "\<not> Empty studentCard_ids
   \<and> trace (session_do panicking_collaborators True
              (fresh_session\<lparr>downloaded := Some studentCard_ids\<rparr>))
       = [Handler_StatusUpdate ''disclosing'' StatusCommunicating, client_getProof,
          Handler_Failure ''disclosing'' \<lparr>ErrorType = ErrorPanic, Info = ''boom'', Err = None\<rparr>]"
  by (simp add: Empty_def studentCard_ids_def session_do_def panicking_collaborators_def
      quiet_collaborators_def panicFailure_def panicToError_def emit_def fresh_session_def)

text \<open>
  C7. \<open>panicToError\<close> yields a \<open>SessionError\<close> of type \<open>ErrorPanic\<close> whose \<open>Info\<close> is the
  string itself for a string, \<open>Error()\<close> for an error (also when the value is a Stringer
  too), \<open>String()\<close> for a Stringer, and the empty string for any other value; and a panic
  with value \<open>v\<close> inside the guarded task \<open>do\<close> of a session with a handler surfaces as the
  callback \<open>Failure (Action, panicToError v)\<close>, as does any non-nil value that the barrier
  recovers.
\<close>

theorem panic_becomes_ErrorPanic:
  "panicToError (VString x) = \<lparr>ErrorType = ErrorPanic, Info = x, Err = None\<rparr>
   \<and> panicToError (VError x) = \<lparr>ErrorType = ErrorPanic, Info = x, Err = None\<rparr>
   \<and> panicToError (VStringer y) = \<lparr>ErrorType = ErrorPanic, Info = y, Err = None\<rparr>
   \<and> panicToError (VErrorStringer x y) = \<lparr>ErrorType = ErrorPanic, Info = x, Err = None\<rparr>
   \<and> panicToError VOther = \<lparr>ErrorType = ErrorPanic, Info = [], Err = None\<rparr>
   \<and> (Handler s \<longrightarrow>
        trace (panicFailure (Some v) s) = trace s @ [Handler_Failure (Action s) (panicToError v)])
   \<and> (Handler s \<and> \<not> distributed c \<and> getProof c = Panic v \<longrightarrow>
        trace (session_do c True s) =
          trace s @ [Handler_StatusUpdate (Action s) StatusCommunicating, client_getProof,
                     Handler_Failure (Action s) (panicToError v)])"
  by (simp add: panicToError_def panicFailure_def session_do_def emit_def)

theorem panic_becomes_ErrorPanic_witness:
  "Handler fresh_session
   \<and> trace (session_do panicking_collaborators True fresh_session) =
       [Handler_StatusUpdate ''disclosing'' StatusCommunicating, client_getProof,
        Handler_Failure ''disclosing'' \<lparr>ErrorType = ErrorPanic, Info = ''boom'', Err = None\<rparr>]"
proof -
  have h: "Handler fresh_session" by (simp add: fresh_session_def)
  have c: "\<not> distributed panicking_collaborators"
    "getProof panicking_collaborators = Panic (VString ''boom'')"
    by (simp_all add: panicking_collaborators_def quiet_collaborators_def)
  show ?thesis
    using panic_becomes_ErrorPanic
      [of "''boom''" "''boom''" fresh_session "VString ''boom''" panicking_collaborators] h c
    by (simp add: fresh_session_def)
qed

section \<open>Timestamps: properties\<close>


lemma digitsVal_append: "digitsVal a (xs @ [c]) = digitsVal a xs * 10 + digitVal c"
  by (induction xs arbitrary: a) simp_all

lemma digitsVal_decimalNat: "digitsVal 0 (decimalNat n) = n"
proof (induction n rule: decimalNat.induct)
  case (1 n)
  show ?case
  proof (cases "n < 10")
    case True
    then show ?thesis by (simp add: decimalNat.simps [of n] digitVal_digitChar)
  next
    case False
    with 1 have "digitsVal 0 (decimalNat (n div 10)) = n div 10" by simp
    with False show ?thesis
      by (simp add: decimalNat.simps [of n] digitsVal_append digitVal_digitChar)
  qed
qed

lemma decimalNat_digits: "list_all isDigit (decimalNat n)"
proof (induction n rule: decimalNat.induct)
  case (1 n)
  show ?case
  proof (cases "n < 10")
    case True
    then show ?thesis by (simp add: decimalNat.simps [of n] isDigit_digitChar)
  next
    case False
    with 1 show ?thesis
      by (simp add: decimalNat.simps [of n] isDigit_digitChar)
  qed
qed

lemma decimalNat_nonempty: "decimalNat n \<noteq> []"
  by (subst decimalNat.simps) simp

lemma isDigit_not_sign: "isDigit c \<Longrightarrow> c \<noteq> CHR ''-'' \<and> c \<noteq> CHR ''+''"
  by (auto simp: isDigit_def)

lemma Atoi_decimalNat:
  assumes "int n < 2 ^ 63"
  shows "Atoi (decimalNat n) = Inr (int n)"
proof -
  obtain c cs where d: "decimalNat n = c # cs"
    using decimalNat_nonempty [of n] by (cases "decimalNat n") auto
  have "isDigit c" using decimalNat_digits [of n] d by simp
  then have ns: "c \<noteq> CHR ''-''" "c \<noteq> CHR ''+''" using isDigit_not_sign by auto
  have v: "digitsVal 0 (c # cs) = n" using digitsVal_decimalNat [of n] d by simp
  have la: "list_all isDigit (c # cs)" using decimalNat_digits [of n] d by simp
  show ?thesis
    unfolding d Atoi_def using ns v la assms by (simp add: Let_def del: digitsVal.simps list.pred_inject)
qed

lemma Atoi_minus_decimalNat:
  assumes "0 < n" "int n \<le> 2 ^ 63"
  shows "Atoi (CHR ''-'' # decimalNat n) = Inr (- int n)"
  unfolding Atoi_def using assms decimalNat_nonempty [of n] decimalNat_digits [of n] digitsVal_decimalNat [of n]
  by (simp add: Let_def)

lemma Atoi_Sprint_int:
  assumes "- (2 ^ 63) \<le> i" "i < 2 ^ 63"
  shows "Atoi (Sprint_int i) = Inr i"
proof (cases "i < 0")
  case True
  then have "Atoi (CHR ''-'' # decimalNat (nat (- i))) = Inr (- int (nat (- i)))"
    using assms by (intro Atoi_minus_decimalNat) auto
  with True show ?thesis by (simp add: Sprint_int_def)
next
  case False
  then have "Atoi (decimalNat (nat i)) = Inr (int (nat i))"
    using assms by (intro Atoi_decimalNat) auto
  with False show ?thesis by (simp add: Sprint_int_def)
qed

lemma roundtrip_eq: "roundtrip t = Inr \<lparr>unixSec = unixSec t, nsec = 0, loc = ''Local''\<rparr>"
proof -
  have "- (2 ^ 63) \<le> sint (unixSec t)" "sint (unixSec t) < 2 ^ 63"
    using sint_ge [of "unixSec t"] sint_lt [of "unixSec t"] by simp_all
  then have "Atoi (Sprint_int (sint (unixSec t))) = Inr (sint (unixSec t))"
    by (rule Atoi_Sprint_int)
  then show ?thesis
    by (simp add: roundtrip_def MarshalJSON_def UnmarshalJSON_def Unix_def time_Unix_def Let_def)
qed


text \<open>
  C10. Unmarshalling what \<open>MarshalJSON\<close> emits always succeeds and yields the time that
  \<open>time.Unix\<close> builds from the Unix seconds of \<open>t\<close>: the same instant as \<open>t\<close> truncated to
  whole seconds, hence the same instant as \<open>t\<close> itself when \<open>t\<close> lies on a whole second (and
  then the very same value when \<open>t\<close> is in the local location).
\<close>

theorem timestamp_roundtrip:
  "MarshalJSON t = Inr (Sprint_int (Unix t))
   \<and> roundtrip t = Inr (time_Unix (Unix t) 0)
   \<and> Equal (time_Unix (Unix t) 0) (Truncate_Second t)
   \<and> (nsec t = 0 \<longrightarrow> Equal (time_Unix (Unix t) 0) t)
   \<and> (nsec t = 0 \<and> loc t = ''Local'' \<longrightarrow> roundtrip t = Inr t)"
  using roundtrip_eq [of t]
  by (simp add: MarshalJSON_def Let_def time_Unix_def Unix_def Equal_def Truncate_Second_def)

theorem timestamp_roundtrip_witness:
  "nsec \<lparr>unixSec = 1506676377, nsec = 0, loc = ''Local''\<rparr> = 0
   \<and> roundtrip \<lparr>unixSec = 1506676377, nsec = 0, loc = ''Local''\<rparr>
       = Inr \<lparr>unixSec = 1506676377, nsec = 0, loc = ''Local''\<rparr>
   \<and> roundtrip \<lparr>unixSec = - 86400, nsec = 999999999, loc = ''UTC''\<rparr>
       = Inr \<lparr>unixSec = - 86400, nsec = 0, loc = ''Local''\<rparr>"
  using timestamp_roundtrip [of "\<lparr>unixSec = 1506676377, nsec = 0, loc = ''Local''\<rparr>"]
    timestamp_roundtrip [of "\<lparr>unixSec = - 86400, nsec = 999999999, loc = ''UTC''\<rparr>"]
  by (simp add: time_Unix_def Unix_def)

section \<open>Credential requests: properties\<close>


lemma fillAttributes_all:
  "(\<forall>a \<in> set ats. ID a \<in> dom m) \<Longrightarrow>
   fillAttributes ats m = Some (map (\<lambda>a. SetBytes (the (m (ID a)))) ats)"
  by (induction ats) auto

lemma fillAttributes_missing:
  "a \<in> set ats \<Longrightarrow> ID a \<notin> dom m \<Longrightarrow> fillAttributes ats m = None"
  by (induction ats) (auto split: option.splits)

lemma fillAttributes_Some_iff:
  "fillAttributes ats m = Some vals \<longleftrightarrow>
     (\<forall>a \<in> set ats. ID a \<in> dom m) \<and> vals = map (\<lambda>a. SetBytes (the (m (ID a)))) ats"
proof (cases "\<forall>a \<in> set ats. ID a \<in> dom m")
  case True
  then show ?thesis using fillAttributes_all [of ats m] by auto
next
  case False
  then obtain a where "a \<in> set ats" "ID a \<notin> dom m" by blast
  then have "fillAttributes ats m = None" by (rule fillAttributes_missing)
  with False show ?thesis by simp
qed

lemma keys_match_iff:
  assumes "finite (dom m)" "distinct (map ID ats)"
  shows "(length ats = card (dom m) \<and> (\<forall>a \<in> set ats. ID a \<in> dom m)) \<longleftrightarrow> ID ` set ats = dom m"
proof
  assume h: "length ats = card (dom m) \<and> (\<forall>a \<in> set ats. ID a \<in> dom m)"
  have c: "card (ID ` set ats) = length ats"
    using assms(2) distinct_card [of "map ID ats"] by simp
  have "ID ` set ats \<subseteq> dom m" using h by auto
  then show "ID ` set ats = dom m" using c h assms(1) by (simp add: card_subset_eq)
next
  assume e: "ID ` set ats = dom m"
  have "card (ID ` set ats) = length ats"
    using assms(2) distinct_card [of "map ID ats"] by simp
  with e show "length ats = card (dom m) \<and> (\<forall>a \<in> set ats. ID a \<in> dom m)" by auto
qed

lemma SetBytes_snoc: "SetBytes (b @ [c]) = SetBytes b * 256 + of_char c"
  by (simp add: SetBytes_def)

lemma SetBytes_bigEndian: "SetBytes b = bigEndian b"
proof (induction b rule: rev_induct)
  case Nil
  then show ?case by (simp add: SetBytes_def bigEndian_def)
next
  case (snoc c b)
  have "bigEndian (b @ [c]) = (\<Sum>i < length b. of_char ((b @ [c]) ! i) * 256 ^ (length b - i)) + of_char c"
    by (simp add: bigEndian_def)
  also have "(\<Sum>i < length b. of_char ((b @ [c]) ! i) * 256 ^ (length b - i))
      = (\<Sum>i < length b. (of_char (b ! i) * 256 ^ (length b - 1 - i)) * (256::int))"
  proof (rule sum.cong)
    fix i assume "i \<in> {..<length b}"
    then have i: "i < length b" by simp
    then have "length b - i = Suc (length b - 1 - i)" by simp
    then show "of_char ((b @ [c]) ! i) * 256 ^ (length b - i) = (of_char (b ! i) * 256 ^ (length b - 1 - i)) * (256::int)"
      using i by (simp add: nth_append)
  qed simp
  also have "\<dots> = bigEndian b * 256" by (simp add: bigEndian_def sum_distrib_right)
  finally show ?case using snoc by (simp add: SetBytes_snoc)
qed


lemma AttributeList_Ok_iff:
  "AttributeList meta conf cr = Ok list \<longleftrightarrow>
     (\<exists>ident metaInt credtype.
        CredentialTypeID cr = Some ident \<and> meta cr = Inr metaInt
        \<and> CredentialTypes_conf conf ident = Some credtype
        \<and> length (Attributes_ct credtype) = card (dom (Attributes cr))
        \<and> (\<forall>a \<in> set (Attributes_ct credtype). ID a \<in> dom (Attributes cr))
        \<and> list = \<lparr>Ints = metaInt # declaredValues credtype cr\<rparr>)"
  by (auto simp: AttributeList_def fillAttributes_Some_iff fillAttributes_all declaredValues_def
      SetBytes_bigEndian split: option.splits sum.splits)

lemma Info_cr_Ok_iff:
  "(\<exists>info. Info_cr meta mkInfo conf cr = Ok info) \<longleftrightarrow>
   (\<exists>list. AttributeList meta conf cr = Ok list)"
  by (auto simp: Info_cr_def split: outcome.splits)

lemma start_preview_succeeds_iff:
  "fst (start_preview meta mkInfo conf creds infos s) \<longleftrightarrow>
   (\<forall>credreq \<in> set creds. \<exists>list. AttributeList meta conf credreq = Ok list)"
proof (induction creds arbitrary: infos)
  case Nil
  then show ?case by simp
next
  case (Cons credreq rest)
  show ?case
  proof (cases "Info_cr meta mkInfo conf credreq")
    case (Ok info)
    then have "\<exists>list. AttributeList meta conf credreq = Ok list"
      using Info_cr_Ok_iff [of meta mkInfo conf credreq] by auto
    with Ok Cons show ?thesis by simp
  next
    case (Error err)
    then have "\<not> (\<exists>list. AttributeList meta conf credreq = Ok list)"
      using Info_cr_Ok_iff [of meta mkInfo conf credreq] by auto
    with Error show ?thesis by simp
  next
    case (Panic v)
    then have "\<not> (\<exists>list. AttributeList meta conf credreq = Ok list)"
      using Info_cr_Ok_iff [of meta mkInfo conf credreq] by auto
    with Panic show ?thesis by simp
  qed
qed

text \<open>
  C5 (as amended). Let the declared attribute identifiers of the requested credential type
  be pairwise distinct (the request's attribute map is finite, as every Go map is). Then
  \<open>AttributeList\<close> succeeds iff the metadata attribute can be built (\<open>setExpiryDate\<close>
  returns no error), the credential type is known, and the keys of the request's attribute
  map are exactly the declared attribute types; on success the list is the metadata integer
  followed by the big-endian integers of the supplied strings in the declared order.
  \<open>Info\<close> succeeds exactly when \<open>AttributeList\<close> does, and the preview loop of \<open>start\<close>
  succeeds exactly when it does for every credential request.
\<close>

theorem AttributeList_succeeds_iff:
  assumes "finite (dom (Attributes cr))"
    and "\<forall>ident credtype. CredentialTypeID cr = Some ident
           \<and> CredentialTypes_conf conf ident = Some credtype
           \<longrightarrow> distinct (map ID (Attributes_ct credtype))"
  shows "((\<exists>list. AttributeList meta conf cr = Ok list) \<longleftrightarrow>
            (\<exists>ident metaInt credtype.
               CredentialTypeID cr = Some ident \<and> meta cr = Inr metaInt
               \<and> CredentialTypes_conf conf ident = Some credtype
               \<and> keysMatch credtype cr))
         \<and> (\<forall>list. AttributeList meta conf cr = Ok list \<longrightarrow>
               (\<exists>ident metaInt credtype.
                  CredentialTypeID cr = Some ident \<and> meta cr = Inr metaInt
                  \<and> CredentialTypes_conf conf ident = Some credtype
                  \<and> Ints list = metaInt # declaredValues credtype cr))
         \<and> ((\<exists>info. Info_cr meta mkInfo conf cr = Ok info) \<longleftrightarrow>
               (\<exists>list. AttributeList meta conf cr = Ok list))
         \<and> (fst (start_preview meta mkInfo conf creds infos s) \<longleftrightarrow>
               (\<forall>credreq \<in> set creds. \<exists>list. AttributeList meta conf credreq = Ok list))"
proof -
  have km: "keysMatch credtype cr \<longleftrightarrow>
              (length (Attributes_ct credtype) = card (dom (Attributes cr))
               \<and> (\<forall>a \<in> set (Attributes_ct credtype). ID a \<in> dom (Attributes cr)))"
    if "CredentialTypeID cr = Some ident" "CredentialTypes_conf conf ident = Some credtype"
    for ident credtype
    using keys_match_iff [OF assms(1), of "Attributes_ct credtype"] assms(2) that
    by (simp add: keysMatch_def)
  have 1: "(\<exists>list. AttributeList meta conf cr = Ok list) \<longleftrightarrow>
            (\<exists>ident metaInt credtype.
               CredentialTypeID cr = Some ident \<and> meta cr = Inr metaInt
               \<and> CredentialTypes_conf conf ident = Some credtype
               \<and> keysMatch credtype cr)"
    unfolding AttributeList_Ok_iff using km by blast
  have 2: "\<forall>list. AttributeList meta conf cr = Ok list \<longrightarrow>
               (\<exists>ident metaInt credtype.
                  CredentialTypeID cr = Some ident \<and> meta cr = Inr metaInt
                  \<and> CredentialTypes_conf conf ident = Some credtype
                  \<and> Ints list = metaInt # declaredValues credtype cr)"
    unfolding AttributeList_Ok_iff by auto
  show ?thesis
    using 1 2 Info_cr_Ok_iff [of meta mkInfo conf cr]
      start_preview_succeeds_iff [of meta mkInfo conf creds infos s]
    by blast
qed

theorem AttributeList_succeeds_iff_witness:
  "AttributeList (\<lambda>cr. Inr 42) demo_conf demo_request = Ok \<lparr>Ints = [42, 3421494]\<rparr>"
proof -
  have f: "finite (dom (Attributes demo_request))" by (simp add: demo_request_def)
  have d: "\<forall>ident credtype. CredentialTypeID demo_request = Some ident
           \<and> CredentialTypes_conf demo_conf ident = Some credtype
           \<longrightarrow> distinct (map ID (Attributes_ct credtype))"
    by (auto simp: demo_request_def demo_conf_def studentCard_def split: if_splits)
  note t = AttributeList_succeeds_iff [OF f d, of "\<lambda>cr. Inr 42" id "[]" "[]" fresh_session]
  have k: "keysMatch studentCard demo_request"
    by (simp add: keysMatch_def studentCard_def demo_request_def)
  have "\<exists>list. AttributeList (\<lambda>cr. Inr 42) demo_conf demo_request = Ok list"
    using t k by (auto simp: demo_request_def demo_conf_def)
  then obtain list where l: "AttributeList (\<lambda>cr. Inr 42) demo_conf demo_request = Ok list"
    by blast
  have v: "declaredValues studentCard demo_request = [3421494]"
    by (simp add: declaredValues_def studentCard_def demo_request_def
        SetBytes_bigEndian [symmetric] SetBytes_def)
  have "Ints list = [42, 3421494]"
    using t l v by (auto simp: demo_request_def demo_conf_def)
  then have "list = \<lparr>Ints = [42, 3421494]\<rparr>" by (cases list) simp
  with l show ?thesis by simp
qed

text \<open>
  The claim as stated fails on the guard after \<open>setExpiryDate\<close>: with a known credential
  type and exactly matching keys, \<open>AttributeList\<close> still fails when the expiry date cannot
  be set.
\<close>

theorem AttributeList_expiry_counterexample:
  "CredentialTypeID demo_request = Some ''irma-demo.RU.studentCard''
   \<and> CredentialTypes_conf demo_conf ''irma-demo.RU.studentCard'' = Some studentCard
   \<and> keysMatch studentCard demo_request
   \<and> AttributeList (\<lambda>cr. Inl (ErrNew ''Expiry date does not match an epoch boundary''))
         demo_conf demo_request
       = Error (ErrNew ''Expiry date does not match an epoch boundary'')"
  by (simp add: keysMatch_def studentCard_def demo_request_def demo_conf_def AttributeList_def)

section \<open>The nonce of a signature request: properties\<close>


lemma of_char_int_range: "(0::int) \<le> of_char c \<and> (of_char c :: int) < 256"
proof -
  have "(of_char c :: nat) < 256" by simp
  moreover have "(of_char c :: int) = int (of_char c :: nat)" by (simp add: of_char_def)
  ultimately show ?thesis by simp
qed


lemma SetBytes_Nil: "SetBytes [] = 0" by (simp add: SetBytes_def)

lemma SetBytes_range: "0 \<le> SetBytes b \<and> SetBytes b < 256 ^ length b"
proof (induction b rule: rev_induct)
  case Nil
  then show ?case by (simp add: SetBytes_Nil)
next
  case (snoc c b)
  then show ?case using of_char_int_range [of c] by (simp add: SetBytes_snoc)
qed

















section \<open>The Android legacy log: \<open>GetTime\<close> and \<open>Parse\<close>\<close>

lemma strings_Index_first_plus:
  "CHR ''+'' \<notin> set pre \<Longrightarrow> strings_Index (pre @ ''+'' @ post) ''+'' = Some (length pre)"
  by (induction pre) auto

lemma strings_Index_no_plus:
  "CHR ''+'' \<notin> set s \<Longrightarrow> strings_Index s ''+'' = None"
  by (induction s) auto

lemma strings_Replace_first_plus:
  assumes "CHR ''+'' \<notin> set pre"
  shows "strings_Replace (pre @ ''+'' @ post) ''+'' '' +'' 1 = pre @ '' +'' @ post"
proof -
  have "strings_Replace (pre @ ''+'' @ post) ''+'' '' +'' (Suc 0)
        = take (length pre) (pre @ ''+'' @ post) @ '' +''
          @ strings_Replace (drop (length pre + length ''+'') (pre @ ''+'' @ post)) ''+'' '' +'' 0"
    using strings_Index_first_plus [OF assms, of post]
    by (simp only: strings_Replace.simps option.case)
  then show ?thesis
    by simp
qed

lemma strings_Replace_no_plus:
  "CHR ''+'' \<notin> set s \<Longrightarrow> strings_Replace s ''+'' '' +'' 1 = s"
  using strings_Index_no_plus [of s] by simp

lemma GetTime_first_plus:
  "CHR ''+'' \<notin> set pre \<Longrightarrow> Time e = pre @ ''+'' @ post \<Longrightarrow>
   GetTime tp e = fst (tp androidLogTimeFormat (pre @ '' +'' @ post))"
  using strings_Replace_first_plus [of pre post] by (simp add: GetTime_def)

lemma GetTime_no_plus:
  "CHR ''+'' \<notin> set (Time e) \<Longrightarrow> GetTime tp e = fst (tp androidLogTimeFormat (Time e))"
  using strings_Replace_no_plus [of "Time e"] by (simp add: GetTime_def)

lemma Parse_env_tags:
  "Type_env env = ''verification'' \<Longrightarrow>
     Parse_env u env = (Some (Verification (fst (intoVerification u (Value env)))),
                        snd (intoVerification u (Value env)))"
  "Type_env env = ''issue'' \<Longrightarrow>
     Parse_env u env = (Some (Issuance (fst (intoIssuance u (Value env)))),
                        snd (intoIssuance u (Value env)))"
  "Type_env env = ''signature'' \<Longrightarrow>
     Parse_env u env = (Some (Signature (fst (intoSignature u (Value env)))),
                        snd (intoSignature u (Value env)))"
  "Type_env env = ''remove'' \<Longrightarrow>
     Parse_env u env = (Some (Removal (fst (intoRemoval u (Value env)))),
                        snd (intoRemoval u (Value env)))"
  "Type_env env \<notin> {''verification'', ''issue'', ''signature'', ''remove''} \<Longrightarrow>
     Parse_env u env = (None, Some (ErrNew ''Invalid Android log type''))"
  by (simp_all add: Parse_env_def androidLogVerificationType_def androidLogIssueType_def
        androidLogSignatureType_def androidLogRemoveType_def split: prod.splits)

lemma example_parsed:
  "time_Parse_layout androidLogTimeFormat ''September 29, 2017 11:12:57 AM GMT +02:00''
   = (\<lparr>unixSec = 1506676377, nsec = 0, loc = ''GMT''\<rparr>, None)"
  by code_simp

lemma example_parsed_two_spaces:
  "time_Parse_layout androidLogTimeFormat ''September 29, 2017 11:12:57 AM GMT  +02:00''
   = (\<lparr>unixSec = 1506676377, nsec = 0, loc = ''GMT''\<rparr>, None)"
  by code_simp

lemma example_parsed_west:
  "time_Parse_layout androidLogTimeFormat ''September 29, 2017 11:12:57 PM EST -05:00''
   = (\<lparr>unixSec = 1506744777, nsec = 0, loc = ''EST''\<rparr>, None)"
  by code_simp

text \<open>
  C8. \<open>GetTime\<close> hands to \<open>time.Parse\<close>, under the layout
  \<open>January 2, 2006 3:04:05 PM MST -07:00\<close>, the timestamp string with \<open>'' +''\<close> in place of
  its first \<open>+\<close>, and returns the time parsed. So a string whose zone carries the offset with
  no space (\<open>GMT+02:00\<close>) is read exactly as the string of the layout's form (\<open>GMT +02:00\<close>)
  is read by \<open>time.Parse\<close>; a string of the layout's form with a negative offset reaches
  \<open>time.Parse\<close> unchanged; and a string of the layout's form with a positive offset reaches
  it with two spaces before the offset, which gives the same time wherever \<open>time.Parse\<close>
  reads two spaces as one. The envelope's \<open>Parse\<close> returns, for each of the four tags, the
  typed value that \<open>json.Unmarshal\<close> filled in together with its error, and for any other tag
  nil and the error \<open>Invalid Android log type\<close>.
\<close>

theorem GetTime_separates_offset_and_Parse_dispatches:
  assumes "CHR ''+'' \<notin> set pre"
  shows "(Time e = pre @ ''+'' @ post \<longrightarrow>
            GetTime time_Parse e = fst (time_Parse androidLogTimeFormat (pre @ '' +'' @ post)))
       \<and> (Time e = pre @ '' +'' @ post
            \<and> time_Parse androidLogTimeFormat (pre @ ''  +'' @ post)
              = time_Parse androidLogTimeFormat (pre @ '' +'' @ post) \<longrightarrow>
            GetTime time_Parse e = fst (time_Parse androidLogTimeFormat (Time e)))
       \<and> (Time e = pre \<longrightarrow> GetTime time_Parse e = fst (time_Parse androidLogTimeFormat (Time e)))
       \<and> (Type_env env = ''verification'' \<longrightarrow>
            Parse_env u env = (Some (Verification (fst (intoVerification u (Value env)))),
                               snd (intoVerification u (Value env))))
       \<and> (Type_env env = ''issue'' \<longrightarrow>
            Parse_env u env = (Some (Issuance (fst (intoIssuance u (Value env)))),
                               snd (intoIssuance u (Value env))))
       \<and> (Type_env env = ''signature'' \<longrightarrow>
            Parse_env u env = (Some (Signature (fst (intoSignature u (Value env)))),
                               snd (intoSignature u (Value env))))
       \<and> (Type_env env = ''remove'' \<longrightarrow>
            Parse_env u env = (Some (Removal (fst (intoRemoval u (Value env)))),
                               snd (intoRemoval u (Value env))))
       \<and> (Type_env env \<notin> {''verification'', ''issue'', ''signature'', ''remove''} \<longrightarrow>
            Parse_env u env = (None, Some (ErrNew ''Invalid Android log type'')))"
proof -
  have a: "Time e = pre @ ''+'' @ post \<longrightarrow>
            GetTime time_Parse e = fst (time_Parse androidLogTimeFormat (pre @ '' +'' @ post))"
    using GetTime_first_plus [OF assms] by blast
  have b: "Time e = pre @ '' +'' @ post
            \<and> time_Parse androidLogTimeFormat (pre @ ''  +'' @ post)
              = time_Parse androidLogTimeFormat (pre @ '' +'' @ post) \<longrightarrow>
            GetTime time_Parse e = fst (time_Parse androidLogTimeFormat (Time e))"
  proof (intro impI, elim conjE)
    assume t: "Time e = pre @ '' +'' @ post"
      and eq: "time_Parse androidLogTimeFormat (pre @ ''  +'' @ post)
               = time_Parse androidLogTimeFormat (pre @ '' +'' @ post)"
    have "CHR ''+'' \<notin> set (pre @ '' '')"
      using assms by simp
    moreover have "Time e = (pre @ '' '') @ ''+'' @ post"
      using t by simp
    ultimately have "GetTime time_Parse e
                     = fst (time_Parse androidLogTimeFormat ((pre @ '' '') @ '' +'' @ post))"
      by (rule GetTime_first_plus)
    then show "GetTime time_Parse e = fst (time_Parse androidLogTimeFormat (Time e))"
      using eq t by simp
  qed
  have c: "Time e = pre \<longrightarrow> GetTime time_Parse e = fst (time_Parse androidLogTimeFormat (Time e))"
    using GetTime_no_plus [of e time_Parse] assms by blast
  show ?thesis
    using a b c Parse_env_tags [of env u] by blast
qed

theorem GetTime_separates_offset_and_Parse_dispatches_witness:
  "GetTime time_Parse_layout
     \<lparr>Time = ''September 29, 2017 11:12:57 AM GMT+02:00'', Credential_Identifier = ''irma-demo.RU.studentCard''\<rparr>
   = \<lparr>unixSec = 1506676377, nsec = 0, loc = ''GMT''\<rparr>
   \<and> GetTime time_Parse_layout
     \<lparr>Time = ''September 29, 2017 11:12:57 AM GMT +02:00'', Credential_Identifier = ''irma-demo.RU.studentCard''\<rparr>
   = \<lparr>unixSec = 1506676377, nsec = 0, loc = ''GMT''\<rparr>
   \<and> GetTime time_Parse_layout
     \<lparr>Time = ''September 29, 2017 11:12:57 PM EST -05:00'', Credential_Identifier = ''irma-demo.RU.studentCard''\<rparr>
   = \<lparr>unixSec = 1506744777, nsec = 0, loc = ''EST''\<rparr>
   \<and> Parse_env no_json \<lparr>Type_env = ''remove'', Value = ''{}''\<rparr>
     = (Some (Removal \<lparr>Time = ''{}'', Credential_Identifier = []\<rparr>), None)
   \<and> Parse_env no_json \<lparr>Type_env = ''disclosing'', Value = ''{}''\<rparr>
     = (None, Some (ErrNew ''Invalid Android log type''))"
  using GetTime_separates_offset_and_Parse_dispatches
          [where pre = "''September 29, 2017 11:12:57 AM GMT''" and post = "''02:00''"
             and time_Parse = time_Parse_layout
             and e = "\<lparr>Time = ''September 29, 2017 11:12:57 AM GMT+02:00'',
                       Credential_Identifier = ''irma-demo.RU.studentCard''\<rparr>"
             and env = "\<lparr>Type_env = ''remove'', Value = ''{}''\<rparr>" and u = no_json]
        GetTime_separates_offset_and_Parse_dispatches
          [where pre = "''September 29, 2017 11:12:57 AM GMT''" and post = "''02:00''"
             and time_Parse = time_Parse_layout
             and e = "\<lparr>Time = ''September 29, 2017 11:12:57 AM GMT +02:00'',
                       Credential_Identifier = ''irma-demo.RU.studentCard''\<rparr>"
             and env = "\<lparr>Type_env = ''disclosing'', Value = ''{}''\<rparr>" and u = no_json]
        GetTime_separates_offset_and_Parse_dispatches
          [where pre = "''September 29, 2017 11:12:57 PM EST -05:00''" and post = "[]"
             and time_Parse = time_Parse_layout
             and e = "\<lparr>Time = ''September 29, 2017 11:12:57 PM EST -05:00'',
                       Credential_Identifier = ''irma-demo.RU.studentCard''\<rparr>"
             and env = "\<lparr>Type_env = ''issue'', Value = ''{}''\<rparr>" and u = no_json]
        example_parsed example_parsed_two_spaces example_parsed_west
  by (simp add: no_json_def)

end
